theory Spec2Isabelle
  imports Main
begin

section \<open>Go standard library functions used by the program\<close>

subsection \<open>Bytes, digits and integers\<close>

text \<open>
  A Go string is a sequence of bytes; \<open>string\<close> (a list of 8-bit characters) is the same
  thing. The functions below are the parts of \<open>strconv\<close>, \<open>strings\<close> and \<open>fmt\<close> that the
  program calls, written out from their documented behaviour.
\<close>

definition isDigit :: "char \<Rightarrow> bool" where
  "isDigit c \<longleftrightarrow> 48 \<le> (of_char c :: nat) \<and> (of_char c :: nat) \<le> 57"

definition digitVal :: "char \<Rightarrow> int" where
  "digitVal c = int (of_char c) - 48"

definition digitChar :: "nat \<Rightarrow> char" where
  "digitChar d = char_of (48 + d)"

definition digitsVal :: "string \<Rightarrow> int" where
  "digitsVal s = foldl (\<lambda>n ch. n * 10 + digitVal ch) 0 s"

fun decDigits :: "nat \<Rightarrow> string" where
  "decDigits n = (if n < 10 then [digitChar n] else decDigits (n div 10) @ [digitChar (n mod 10)])"

declare decDigits.simps [simp del]

text \<open>\<open>strconv.Itoa\<close>, which is also what \<open>fmt.Sprint\<close> prints for an \<open>int\<close>.\<close>

definition Itoa :: "int \<Rightarrow> string" where
  "Itoa i = (if i < 0 then CHR ''-'' # decDigits (nat (- i)) else decDigits (nat i))"

datatype NumError = ErrSyntax | ErrRange

text \<open>The size of Go's \<open>int\<close> on the 64-bit platforms the server is built for.\<close>

definition intSize :: nat where
  "intSize = 64"

definition maxInt :: int where
  "maxInt = 2 ^ (intSize - 1) - 1"

definition minInt :: int where
  "minInt = - (2 ^ (intSize - 1))"

text \<open>
  \<open>strconv.Atoi\<close>: an optional sign, then one or more decimal digits and nothing else;
  a value that does not fit \<open>int\<close> is an error (\<open>ErrRange\<close>), like any other text that
  is not a number (\<open>ErrSyntax\<close>).
\<close>

definition Atoi :: "string \<Rightarrow> NumError + int" where
  "Atoi s =
    (case s of
       [] \<Rightarrow> Inl ErrSyntax
     | c # cs \<Rightarrow>
        (let neg = (c = CHR ''-'');
             body = (if c = CHR ''-'' \<or> c = CHR ''+'' then cs else s)
         in if body = [] \<or> \<not> list_all isDigit body then Inl ErrSyntax
            else (let n = (if neg then - digitsVal body else digitsVal body)
                  in if n < minInt \<or> maxInt < n then Inl ErrRange else Inr n)))"

text \<open>\<open>strconv.ParseBool\<close>.\<close>

definition ParseBool :: "string \<Rightarrow> NumError + bool" where
  "ParseBool str =
    (if str \<in> set [''1'', ''t'', ''T'', ''TRUE'', ''true'', ''True''] then Inr True
     else if str \<in> set [''0'', ''f'', ''F'', ''FALSE'', ''false'', ''False''] then Inr False
     else Inl ErrSyntax)"

definition HasPrefix :: "string \<Rightarrow> string \<Rightarrow> bool" where
  "HasPrefix s p \<longleftrightarrow> length p \<le> length s \<and> take (length p) s = p"

definition TrimPrefix :: "string \<Rightarrow> string \<Rightarrow> string" where
  "TrimPrefix s p = (if HasPrefix s p then drop (length p) s else s)"

text \<open>
  \<open>strings.ToLower\<close>: in a text of ASCII bytes it lowers the letters \<open>A\<close> to \<open>Z\<close> and
  leaves every other byte; any other text it hands to \<open>strings.Map\<close> with
  \<open>unicode.ToLower\<close>. That second function reads the tables of package \<open>unicode\<close>; it
  is the parameter \<open>unicodeToLower\<close>.
\<close>

definition ToLower :: "(string \<Rightarrow> string) \<Rightarrow> string \<Rightarrow> string" where
  "ToLower unicodeToLower s =
    (if list_all (\<lambda>c. (of_char c :: nat) < 128) s
     then map (\<lambda>c. if 65 \<le> (of_char c :: nat) \<and> (of_char c :: nat) \<le> 90
                    then char_of ((of_char c :: nat) + 32) else c) s
     else unicodeToLower s)"

subsection \<open>Query values\<close>

text \<open>
  \<open>url.Values\<close> is \<open>map[string][]string\<close>; \<open>Get\<close> returns the first value stored under
  the key, and the empty string when there is none.
\<close>

type_synonym Values = "string \<rightharpoonup> string list"

definition Get :: "Values \<Rightarrow> string \<Rightarrow> string" where
  "Get v key = (case v key of None \<Rightarrow> [] | Some [] \<Rightarrow> [] | Some (x # _) \<Rightarrow> x)"

subsection \<open>Time values, parsing and formatting\<close>

text \<open>
  A \<open>time.Time\<close> is given by its calendar reading in its own location; \<open>t_offset\<close> is
  that location's offset from UTC in seconds (0 for UTC).
\<close>

record Time =
  t_year :: int
  t_month :: int
  t_day :: int
  t_hour :: int
  t_minute :: int
  t_second :: int
  t_nsec :: int
  t_offset :: int

definition isLeap :: "int \<Rightarrow> bool" where
  "isLeap year \<longleftrightarrow> year mod 4 = 0 \<and> (year mod 100 \<noteq> 0 \<or> year mod 400 = 0)"

definition daysIn :: "int \<Rightarrow> int \<Rightarrow> int" where
  "daysIn m year =
    (if m = 2 then (if isLeap year then 29 else 28)
     else if m = 4 \<or> m = 6 \<or> m = 9 \<or> m = 11 then 30 else 31)"

text \<open>
  The elements of a layout that occur in this program's layouts. The layout
  \<open>"2006-01-02"\<close> is year, \<open>-\<close>, month, \<open>-\<close>, day; in \<open>"2006-01-02T15:04:05Z"\<close> the
  letters \<open>T\<close> and \<open>Z\<close> are literal text (a \<open>Z\<close> names a zone only when \<open>07\<close> follows it).
  \<open>layoutChunks\<close> splits a layout as \<open>nextStdChunk\<close> of package \<open>time\<close> does, for
  these elements; no layout of the program contains a space or another element.
\<close>

datatype Chunk =
    Lit char
  | StdLongYear
  | StdZeroMonth
  | StdZeroDay
  | StdHour
  | StdZeroMinute
  | StdZeroSecond

fun layoutChunks :: "string \<Rightarrow> Chunk list" where
  "layoutChunks [] = []"
| "layoutChunks (c # cs) =
    (if c = CHR ''2'' \<and> take 3 cs = ''006'' then StdLongYear # layoutChunks (drop 3 cs)
     else if c = CHR ''0'' \<and> take 1 cs = ''1'' then StdZeroMonth # layoutChunks (drop 1 cs)
     else if c = CHR ''0'' \<and> take 1 cs = ''2'' then StdZeroDay # layoutChunks (drop 1 cs)
     else if c = CHR ''1'' \<and> take 1 cs = ''5'' then StdHour # layoutChunks (drop 1 cs)
     else if c = CHR ''0'' \<and> take 1 cs = ''4'' then StdZeroMinute # layoutChunks (drop 1 cs)
     else if c = CHR ''0'' \<and> take 1 cs = ''5'' then StdZeroSecond # layoutChunks (drop 1 cs)
     else Lit c # layoutChunks cs)"

text \<open>
  \<open>getnum\<close> reads a one- or two-digit number; with \<open>fixed\<close> it insists on two digits.
\<close>

definition getnum :: "string \<Rightarrow> bool \<Rightarrow> (int \<times> string) option" where
  "getnum s fixed =
    (case s of
       [] \<Rightarrow> None
     | c0 # r0 \<Rightarrow>
        (if \<not> isDigit c0 then None
         else (case r0 of
                 [] \<Rightarrow> (if fixed then None else Some (digitVal c0, r0))
               | c1 # r1 \<Rightarrow>
                  (if \<not> isDigit c1 then (if fixed then None else Some (digitVal c0, r0))
                   else Some (digitVal c0 * 10 + digitVal c1, r1)))))"

definition commaOrPeriod :: "char \<Rightarrow> bool" where
  "commaOrPeriod c \<longleftrightarrow> c = CHR ''.'' \<or> c = CHR '',''"

text \<open>
  A fractional second in the input is accepted after the seconds even though the layout
  has none; at most nine of its digits count.
\<close>

definition fractionalSecond :: "string \<Rightarrow> int \<times> string" where
  "fractionalSecond v =
    (case v of
       c0 # c1 # r \<Rightarrow>
        (if commaOrPeriod c0 \<and> isDigit c1
         then (let ds = takeWhile isDigit (c1 # r);
                   used = take 9 ds
               in (digitsVal used * 10 ^ (9 - length used), drop (length ds) (c1 # r)))
         else (0, v))
     | _ \<Rightarrow> (0, v))"

text \<open>
  One pass over the layout, consuming the value. \<open>None\<close> is the \<open>*ParseError\<close> of the
  library; the program only ever asks whether the error is nil.
\<close>

fun parseChunks :: "Chunk list \<Rightarrow> string \<Rightarrow> Time \<Rightarrow> Time option" where
  "parseChunks [] v t = (if v \<noteq> [] then None else Some t)"
| "parseChunks (Lit c # cs) v t =
    (case v of [] \<Rightarrow> None | x # r \<Rightarrow> if x = c then parseChunks cs r t else None)"
| "parseChunks (StdLongYear # cs) v t =
    (if length v < 4 \<or> \<not> list_all isDigit (take 4 v) then None
     else parseChunks cs (drop 4 v) (t\<lparr>t_year := digitsVal (take 4 v)\<rparr>))"
| "parseChunks (StdZeroMonth # cs) v t =
    (case getnum v True of
       None \<Rightarrow> None
     | Some (m, r) \<Rightarrow> if m \<le> 0 \<or> 12 < m then None else parseChunks cs r (t\<lparr>t_month := m\<rparr>))"
| "parseChunks (StdZeroDay # cs) v t =
    (case getnum v True of
       None \<Rightarrow> None
     | Some (d, r) \<Rightarrow> parseChunks cs r (t\<lparr>t_day := d\<rparr>))"
| "parseChunks (StdHour # cs) v t =
    (case getnum v False of
       None \<Rightarrow> None
     | Some (h, r) \<Rightarrow> if h < 0 \<or> 24 \<le> h then None else parseChunks cs r (t\<lparr>t_hour := h\<rparr>))"
| "parseChunks (StdZeroMinute # cs) v t =
    (case getnum v True of
       None \<Rightarrow> None
     | Some (m, r) \<Rightarrow> if m < 0 \<or> 60 \<le> m then None else parseChunks cs r (t\<lparr>t_minute := m\<rparr>))"
| "parseChunks (StdZeroSecond # cs) v t =
    (case getnum v True of
       None \<Rightarrow> None
     | Some (s, r) \<Rightarrow>
        if s < 0 \<or> 60 \<le> s then None
        else (case fractionalSecond r of
                (ns, r') \<Rightarrow> parseChunks cs r' (t\<lparr>t_second := s, t_nsec := ns\<rparr>)))"

text \<open>
  \<open>time.Parse\<close>: fields the layout does not mention keep their defaults (January, the
  first, midnight), the day is checked against the month at the end, and the result is
  in UTC.
\<close>

definition time_Parse :: "string \<Rightarrow> string \<Rightarrow> Time option" where
  "time_Parse layout v =
    (case parseChunks (layoutChunks layout) v
            \<lparr>t_year = 0, t_month = - 1, t_day = - 1, t_hour = 0, t_minute = 0,
             t_second = 0, t_nsec = 0, t_offset = 0\<rparr> of
       None \<Rightarrow> None
     | Some t \<Rightarrow>
        (let month = (if t_month t < 0 then 1 else t_month t);
             day = (if t_day t < 0 then 1 else t_day t)
         in if day < 1 \<or> daysIn month (t_year t) < day then None
            else Some (t\<lparr>t_month := month, t_day := day\<rparr>)))"

text \<open>\<open>appendInt\<close>: the decimal digits of \<open>x\<close>, zero-padded on the left to \<open>width\<close>.\<close>

definition appendInt :: "int \<Rightarrow> nat \<Rightarrow> string" where
  "appendInt x width =
    (let ds = decDigits (nat \<bar>x\<bar>)
     in (if x < 0 then [CHR ''-''] else []) @ replicate (width - length ds) (CHR ''0'') @ ds)"

fun formatChunk :: "Time \<Rightarrow> Chunk \<Rightarrow> string" where
  "formatChunk t (Lit c) = [c]"
| "formatChunk t StdLongYear = appendInt (t_year t) 4"
| "formatChunk t StdZeroMonth = appendInt (t_month t) 2"
| "formatChunk t StdZeroDay = appendInt (t_day t) 2"
| "formatChunk t StdHour = appendInt (t_hour t) 2"
| "formatChunk t StdZeroMinute = appendInt (t_minute t) 2"
| "formatChunk t StdZeroSecond = appendInt (t_second t) 2"

definition time_Format :: "Time \<Rightarrow> string \<Rightarrow> string" where
  "time_Format t layout = concat (map (formatChunk t) (layoutChunks layout))"

section \<open>Search parameters (internal/models/search\_params.go)\<close>

record PatientSearchParams =
  ps_Name :: string
  ps_FamilyName :: string
  ps_GivenName :: string
  ps_Gender :: string
  ps_BirthDate :: "Time option"
  ps_BirthDateGreaterThan :: "Time option"
  ps_BirthDateLessThan :: "Time option"
  ps_Active :: "bool option"
  ps_SortBy :: string
  ps_SortOrder :: string
  ps_Limit :: int
  ps_Offset :: int

record ObservationSearchParams =
  os_PatientID :: string
  os_Code :: string
  os_Category :: string
  os_Status :: string
  os_DateGreaterThan :: "Time option"
  os_DateLessThan :: "Time option"
  os_SortBy :: string
  os_SortOrder :: string
  os_Limit :: int
  os_Offset :: int

section \<open>Query parser (internal/utils/query\_parser.go)\<close>

text \<open>
  \<open>parseDateWithPrefix\<close> returns the parsed date (nil when no format matches) and the
  comparison prefix it removed (empty when it removed none).
\<close>

definition formats :: "string list" where
  "formats = [''2006-01-02'', ''2006-01-02T15:04:05Z'', ''2006-01-02T15:04:05'']"

fun tryFormats :: "string list \<Rightarrow> string \<Rightarrow> Time option" where
  "tryFormats [] dateString = None"
| "tryFormats (format # rest) dateString =
    (case time_Parse format dateString of
       Some parsedTime \<Rightarrow> Some parsedTime
     | None \<Rightarrow> tryFormats rest dateString)"

definition parseDateWithPrefix :: "string \<Rightarrow> Time option \<times> string" where
  "parseDateWithPrefix dateString0 =
    (let (prefix, dateString) =
           (if length dateString0 > 2
            then (let potentialPrefix = take 2 dateString0
                  in if potentialPrefix = ''ge'' \<or> potentialPrefix = ''le''
                        \<or> potentialPrefix = ''gt'' \<or> potentialPrefix = ''lt''
                        \<or> potentialPrefix = ''eq''
                     then (potentialPrefix, drop 2 dateString0)
                     else ('''', dateString0))
            else ('''', dateString0))
     in (tryFormats formats dateString, prefix))"

text \<open>
  \<open>ParsePatientSearchParams\<close> reads the request only through \<open>request.URL.Query()\<close>, so
  the model takes those values. Its error result is nil on its only return path, so the
  model returns the parameters alone. Each \<open>if\<close> statement of the function body is one
  definition below, named after the query key it reads; the function runs them in the
  order of the source.
\<close>

definition patient_name :: "Values \<Rightarrow> PatientSearchParams \<Rightarrow> PatientSearchParams" where
  "patient_name queryParams searchParams =
    (let name = Get queryParams ''name''
     in if name \<noteq> '''' then searchParams\<lparr>ps_Name := name\<rparr> else searchParams)"

definition patient_family :: "Values \<Rightarrow> PatientSearchParams \<Rightarrow> PatientSearchParams" where
  "patient_family queryParams searchParams =
    (let familyName = Get queryParams ''family''
     in if familyName \<noteq> '''' then searchParams\<lparr>ps_FamilyName := familyName\<rparr>
        else searchParams)"

definition patient_given :: "Values \<Rightarrow> PatientSearchParams \<Rightarrow> PatientSearchParams" where
  "patient_given queryParams searchParams =
    (let givenName = Get queryParams ''given''
     in if givenName \<noteq> '''' then searchParams\<lparr>ps_GivenName := givenName\<rparr>
        else searchParams)"

definition patient_gender :: "Values \<Rightarrow> PatientSearchParams \<Rightarrow> PatientSearchParams" where
  "patient_gender queryParams searchParams =
    (let gender = Get queryParams ''gender''
     in if gender \<noteq> '''' then searchParams\<lparr>ps_Gender := gender\<rparr> else searchParams)"

definition patient_birthdate :: "Values \<Rightarrow> PatientSearchParams \<Rightarrow> PatientSearchParams" where
  "patient_birthdate queryParams searchParams =
    (let birthdate = Get queryParams ''birthdate''
     in if birthdate \<noteq> ''''
        then (case parseDateWithPrefix birthdate of
                (None, prefix) \<Rightarrow> searchParams
              | (Some parsedDate, prefix) \<Rightarrow>
                 if prefix = ''ge'' \<or> prefix = ''gt''
                 then searchParams\<lparr>ps_BirthDateGreaterThan := Some parsedDate\<rparr>
                 else if prefix = ''le'' \<or> prefix = ''lt''
                 then searchParams\<lparr>ps_BirthDateLessThan := Some parsedDate\<rparr>
                 else if prefix = ''eq'' \<or> prefix = ''''
                 then searchParams\<lparr>ps_BirthDate := Some parsedDate\<rparr>
                 else searchParams)
        else searchParams)"

definition patient_active :: "Values \<Rightarrow> PatientSearchParams \<Rightarrow> PatientSearchParams" where
  "patient_active queryParams searchParams =
    (let active = Get queryParams ''active''
     in if active \<noteq> ''''
        then (case ParseBool active of
                Inr activeBool \<Rightarrow> searchParams\<lparr>ps_Active := Some activeBool\<rparr>
              | Inl parseError \<Rightarrow> searchParams)
        else searchParams)"

definition patient_sort :: "Values \<Rightarrow> PatientSearchParams \<Rightarrow> PatientSearchParams" where
  "patient_sort queryParams searchParams =
    (let sortBy = Get queryParams ''_sort''
     in if sortBy \<noteq> ''''
        then (if HasPrefix sortBy ''-''
              then searchParams\<lparr>ps_SortBy := TrimPrefix sortBy ''-'', ps_SortOrder := ''desc''\<rparr>
              else searchParams\<lparr>ps_SortBy := sortBy, ps_SortOrder := ''asc''\<rparr>)
        else searchParams)"

definition patient_count :: "Values \<Rightarrow> PatientSearchParams \<Rightarrow> PatientSearchParams" where
  "patient_count queryParams searchParams =
    (let limit = Get queryParams ''_count''
     in if limit \<noteq> ''''
        then (case Atoi limit of
                Inr limitInt \<Rightarrow>
                 if limitInt > 0
                 then (let limitInt = (if limitInt > 100 then 100 else limitInt)
                       in searchParams\<lparr>ps_Limit := limitInt\<rparr>)
                 else searchParams
              | Inl parseError \<Rightarrow> searchParams)
        else searchParams)"

definition patient_offset :: "Values \<Rightarrow> PatientSearchParams \<Rightarrow> PatientSearchParams" where
  "patient_offset queryParams searchParams =
    (let offset = Get queryParams ''_offset''
     in if offset \<noteq> ''''
        then (case Atoi offset of
                Inr offsetInt \<Rightarrow>
                 if offsetInt \<ge> 0 then searchParams\<lparr>ps_Offset := offsetInt\<rparr>
                 else searchParams
              | Inl parseError \<Rightarrow> searchParams)
        else searchParams)"

definition ParsePatientSearchParams :: "Values \<Rightarrow> PatientSearchParams" where
  "ParsePatientSearchParams queryParams =
    (let searchParams =
           \<lparr>ps_Name = '''', ps_FamilyName = '''', ps_GivenName = '''', ps_Gender = '''',
            ps_BirthDate = None, ps_BirthDateGreaterThan = None, ps_BirthDateLessThan = None,
            ps_Active = None, ps_SortBy = '''', ps_SortOrder = '''',
            ps_Limit = 10, ps_Offset = 0\<rparr>;
         searchParams = patient_name queryParams searchParams;
         searchParams = patient_family queryParams searchParams;
         searchParams = patient_given queryParams searchParams;
         searchParams = patient_gender queryParams searchParams;
         searchParams = patient_birthdate queryParams searchParams;
         searchParams = patient_active queryParams searchParams;
         searchParams = patient_sort queryParams searchParams;
         searchParams = patient_count queryParams searchParams;
         searchParams = patient_offset queryParams searchParams
     in searchParams)"

definition observation_patient ::
  "Values \<Rightarrow> ObservationSearchParams \<Rightarrow> ObservationSearchParams" where
  "observation_patient queryParams searchParams =
    (let patientID = Get queryParams ''patient''
     in if patientID \<noteq> ''''
        then (if HasPrefix patientID ''Patient/''
              then searchParams\<lparr>os_PatientID := TrimPrefix patientID ''Patient/''\<rparr>
              else searchParams\<lparr>os_PatientID := patientID\<rparr>)
        else searchParams)"

definition observation_code ::
  "Values \<Rightarrow> ObservationSearchParams \<Rightarrow> ObservationSearchParams" where
  "observation_code queryParams searchParams =
    (let code = Get queryParams ''code''
     in if code \<noteq> '''' then searchParams\<lparr>os_Code := code\<rparr> else searchParams)"

definition observation_category ::
  "Values \<Rightarrow> ObservationSearchParams \<Rightarrow> ObservationSearchParams" where
  "observation_category queryParams searchParams =
    (let category = Get queryParams ''category''
     in if category \<noteq> '''' then searchParams\<lparr>os_Category := category\<rparr>
        else searchParams)"

definition observation_status ::
  "Values \<Rightarrow> ObservationSearchParams \<Rightarrow> ObservationSearchParams" where
  "observation_status queryParams searchParams =
    (let status = Get queryParams ''status''
     in if status \<noteq> '''' then searchParams\<lparr>os_Status := status\<rparr> else searchParams)"

definition observation_date ::
  "Values \<Rightarrow> ObservationSearchParams \<Rightarrow> ObservationSearchParams" where
  "observation_date queryParams searchParams =
    (let date = Get queryParams ''date''
     in if date \<noteq> ''''
        then (case parseDateWithPrefix date of
                (None, prefix) \<Rightarrow> searchParams
              | (Some parsedDate, prefix) \<Rightarrow>
                 if prefix = ''ge'' \<or> prefix = ''gt''
                 then searchParams\<lparr>os_DateGreaterThan := Some parsedDate\<rparr>
                 else if prefix = ''le'' \<or> prefix = ''lt''
                 then searchParams\<lparr>os_DateLessThan := Some parsedDate\<rparr>
                 else searchParams)
        else searchParams)"

definition observation_sort ::
  "Values \<Rightarrow> ObservationSearchParams \<Rightarrow> ObservationSearchParams" where
  "observation_sort queryParams searchParams =
    (let sortBy = Get queryParams ''_sort''
     in if sortBy \<noteq> ''''
        then (if HasPrefix sortBy ''-''
              then searchParams\<lparr>os_SortBy := TrimPrefix sortBy ''-'', os_SortOrder := ''desc''\<rparr>
              else searchParams\<lparr>os_SortBy := sortBy, os_SortOrder := ''asc''\<rparr>)
        else searchParams)"

definition observation_count ::
  "Values \<Rightarrow> ObservationSearchParams \<Rightarrow> ObservationSearchParams" where
  "observation_count queryParams searchParams =
    (let limit = Get queryParams ''_count''
     in if limit \<noteq> ''''
        then (case Atoi limit of
                Inr limitInt \<Rightarrow>
                 if limitInt > 0
                 then (let limitInt = (if limitInt > 100 then 100 else limitInt)
                       in searchParams\<lparr>os_Limit := limitInt\<rparr>)
                 else searchParams
              | Inl parseError \<Rightarrow> searchParams)
        else searchParams)"

definition observation_offset ::
  "Values \<Rightarrow> ObservationSearchParams \<Rightarrow> ObservationSearchParams" where
  "observation_offset queryParams searchParams =
    (let offset = Get queryParams ''_offset''
     in if offset \<noteq> ''''
        then (case Atoi offset of
                Inr offsetInt \<Rightarrow>
                 if offsetInt \<ge> 0 then searchParams\<lparr>os_Offset := offsetInt\<rparr>
                 else searchParams
              | Inl parseError \<Rightarrow> searchParams)
        else searchParams)"

definition ParseObservationSearchParams :: "Values \<Rightarrow> ObservationSearchParams" where
  "ParseObservationSearchParams queryParams =
    (let searchParams =
           \<lparr>os_PatientID = '''', os_Code = '''', os_Category = '''', os_Status = '''',
            os_DateGreaterThan = None, os_DateLessThan = None,
            os_SortBy = '''', os_SortOrder = '''', os_Limit = 10, os_Offset = 0\<rparr>;
         searchParams = observation_patient queryParams searchParams;
         searchParams = observation_code queryParams searchParams;
         searchParams = observation_category queryParams searchParams;
         searchParams = observation_status queryParams searchParams;
         searchParams = observation_date queryParams searchParams;
         searchParams = observation_sort queryParams searchParams;
         searchParams = observation_count queryParams searchParams;
         searchParams = observation_offset queryParams searchParams
     in searchParams)"

section \<open>Domain records (internal/models/patient.go, observation.go)\<close>

record Patient =
  p_ID :: string
  p_IdentifierSystem :: string
  p_IdentifierValue :: string
  p_Active :: bool
  p_FamilyName :: string
  p_GivenName :: string
  p_Gender :: string
  p_BirthDate :: "Time option"
  p_CreatedAt :: Time
  p_UpdatedAt :: Time

text \<open>
  The program never computes with a \<open>float64\<close>: it only moves the values of quantities
  around, so the type is left uninterpreted.
\<close>

typedecl float64

record ObservationComponent =
  oc_Code :: string
  oc_CodeSystem :: string
  oc_CodeDisplay :: string
  oc_ValueQuantity :: "float64 option"
  oc_ValueUnit :: string
  oc_ValueString :: string

record Observation =
  o_ID :: string
  o_PatientID :: string
  o_Status :: string
  o_Category :: string
  o_Code :: string
  o_CodeSystem :: string
  o_CodeDisplay :: string
  o_ValueQuantity :: "float64 option"
  o_ValueUnit :: string
  o_ValueString :: string
  o_EffectiveDate :: "Time option"
  o_IssuedDate :: Time
  o_Components :: "ObservationComponent list"
  o_CreatedAt :: Time
  o_UpdatedAt :: Time

section \<open>Errors\<close>

text \<open>
  A Go \<open>error\<close> is either a value that a driver or a library made, known by its message,
  or the result of \<open>fmt.Errorf\<close> with the verb \<open>%w\<close>: a new error with a message of its
  own that wraps the first and gives it back through \<open>Unwrap\<close>.
\<close>

datatype Error = Err string | WrapError string Error

fun Error_msg :: "Error \<Rightarrow> string" where
  "Error_msg (Err msg) = msg"
| "Error_msg (WrapError msg err) = msg"

fun Unwrap :: "Error \<Rightarrow> Error option" where
  "Unwrap (Err msg) = None"
| "Unwrap (WrapError msg err) = Some err"

text \<open>\<open>fmt.Errorf(prefix + "%w", err)\<close>.\<close>

definition Errorf :: "string \<Rightarrow> Error \<Rightarrow> Error" where
  "Errorf prefix err = WrapError (prefix @ Error_msg err) err"

section \<open>Patient repository (internal/repository/patient\_repository.go)\<close>

text \<open>
  The database is a state of any type \<open>'db\<close>; \<open>QueryContext\<close> takes it with the text of
  the query and its arguments and returns the rows or an error, and the state after the
  call. The rows are the outcomes of \<open>Scan\<close>, row by row, and the error that \<open>rows.Err\<close>
  reports after the last one.
\<close>

datatype SqlArg = ArgString string | ArgTime Time | ArgBool bool | ArgInt int

record PatientRows =
  rows_Scan :: "(Error + Patient) list"
  rows_Err :: "Error option"

type_synonym 'db QueryContext =
  "'db \<Rightarrow> string \<Rightarrow> SqlArg list \<Rightarrow> (Error + PatientRows) \<times> 'db"

definition selectPatients :: string where
  "selectPatients =
     [CHR 0x0A, CHR 0x09, CHR 0x09] @
     ''SELECT id, identifier_system, identifier_value, active, family_name, given_name, gender, birth_date, created_at, updated_at'' @
     [CHR 0x0A, CHR 0x09, CHR 0x09] @ ''FROM patients'' @
     [CHR 0x0A, CHR 0x09, CHR 0x09] @ ''WHERE 1=1'' @ [CHR 0x0A, CHR 0x09]"

text \<open>
  The filters of \<open>Search\<close>, in the order of the source: the text of the query so far, its
  arguments and the index of the next placeholder. \<open>unicodeToLower\<close> is the library
  function that \<open>ToLower\<close> needs.
\<close>

definition patientFilters ::
  "(string \<Rightarrow> string) \<Rightarrow> PatientSearchParams \<Rightarrow> string \<times> SqlArg list \<times> int" where
  "patientFilters unicodeToLower searchParams =
    (let baseQuery = selectPatients;
         queryParameters = [];
         parameterIndex = 1;
         (baseQuery, queryParameters, parameterIndex) =
           (if ps_Name searchParams \<noteq> ''''
            then (baseQuery @ '' AND (LOWER(given_name) LIKE $'' @ Itoa parameterIndex
                    @ '' OR LOWER(family_name) LIKE $'' @ Itoa parameterIndex @ '')'',
                  queryParameters
                    @ [ArgString (''%'' @ ToLower unicodeToLower (ps_Name searchParams)
                                    @ ''%'')],
                  parameterIndex + 1)
            else (baseQuery, queryParameters, parameterIndex));
         (baseQuery, queryParameters, parameterIndex) =
           (if ps_FamilyName searchParams \<noteq> ''''
            then (baseQuery @ '' AND LOWER(family_name) LIKE $'' @ Itoa parameterIndex,
                  queryParameters
                    @ [ArgString (''%'' @ ToLower unicodeToLower (ps_FamilyName searchParams)
                                    @ ''%'')],
                  parameterIndex + 1)
            else (baseQuery, queryParameters, parameterIndex));
         (baseQuery, queryParameters, parameterIndex) =
           (if ps_GivenName searchParams \<noteq> ''''
            then (baseQuery @ '' AND LOWER(given_name) LIKE $'' @ Itoa parameterIndex,
                  queryParameters
                    @ [ArgString (''%'' @ ToLower unicodeToLower (ps_GivenName searchParams)
                                    @ ''%'')],
                  parameterIndex + 1)
            else (baseQuery, queryParameters, parameterIndex));
         (baseQuery, queryParameters, parameterIndex) =
           (if ps_Gender searchParams \<noteq> ''''
            then (baseQuery @ '' AND gender = $'' @ Itoa parameterIndex,
                  queryParameters @ [ArgString (ps_Gender searchParams)],
                  parameterIndex + 1)
            else (baseQuery, queryParameters, parameterIndex));
         (baseQuery, queryParameters, parameterIndex) =
           (case ps_BirthDate searchParams of
              Some birthDate \<Rightarrow>
               (baseQuery @ '' AND birth_date = $'' @ Itoa parameterIndex,
                queryParameters @ [ArgTime birthDate],
                parameterIndex + 1)
            | None \<Rightarrow> (baseQuery, queryParameters, parameterIndex));
         (baseQuery, queryParameters, parameterIndex) =
           (case ps_BirthDateGreaterThan searchParams of
              Some birthDate \<Rightarrow>
               (baseQuery @ '' AND birth_date >= $'' @ Itoa parameterIndex,
                queryParameters @ [ArgTime birthDate],
                parameterIndex + 1)
            | None \<Rightarrow> (baseQuery, queryParameters, parameterIndex));
         (baseQuery, queryParameters, parameterIndex) =
           (case ps_BirthDateLessThan searchParams of
              Some birthDate \<Rightarrow>
               (baseQuery @ '' AND birth_date <= $'' @ Itoa parameterIndex,
                queryParameters @ [ArgTime birthDate],
                parameterIndex + 1)
            | None \<Rightarrow> (baseQuery, queryParameters, parameterIndex));
         (baseQuery, queryParameters, parameterIndex) =
           (case ps_Active searchParams of
              Some active \<Rightarrow>
               (baseQuery @ '' AND active = $'' @ Itoa parameterIndex,
                queryParameters @ [ArgBool active],
                parameterIndex + 1)
            | None \<Rightarrow> (baseQuery, queryParameters, parameterIndex))
     in (baseQuery, queryParameters, parameterIndex))"

text \<open>The block "Add sorting": the column and the direction of \<open>ORDER BY\<close>.\<close>

definition patientSortBy :: "PatientSearchParams \<Rightarrow> string" where
  "patientSortBy searchParams =
    (let sortBy = ''created_at''
     in if ps_SortBy searchParams \<noteq> ''''
        then (let validSortFields =
                    map_of [(''name'', True), (''family_name'', True), (''given_name'', True),
                            (''birthdate'', True), (''gender'', True), (''created_at'', True)]
              in if (case validSortFields (ps_SortBy searchParams) of
                       Some valid \<Rightarrow> valid | None \<Rightarrow> False)
                 then (if ps_SortBy searchParams = ''name'' then ''family_name''
                       else if ps_SortBy searchParams = ''birthdate'' then ''birth_date''
                       else ps_SortBy searchParams)
                 else sortBy)
        else sortBy)"

definition patientSortOrder :: "PatientSearchParams \<Rightarrow> string" where
  "patientSortOrder searchParams =
    (let sortOrder = ''DESC''
     in if ps_SortOrder searchParams = ''asc'' then ''ASC'' else sortOrder)"

text \<open>The query that \<open>Search\<close> sends: its text and its arguments.\<close>

definition patientSearchQuery ::
  "(string \<Rightarrow> string) \<Rightarrow> PatientSearchParams \<Rightarrow> string \<times> SqlArg list" where
  "patientSearchQuery unicodeToLower searchParams =
    (let (baseQuery, queryParameters, parameterIndex) =
           patientFilters unicodeToLower searchParams;
         sortBy = patientSortBy searchParams;
         sortOrder = patientSortOrder searchParams;
         baseQuery = baseQuery @ '' ORDER BY '' @ sortBy @ '' '' @ sortOrder;
         baseQuery = baseQuery @ '' LIMIT $'' @ Itoa parameterIndex
                       @ '' OFFSET $'' @ Itoa (parameterIndex + 1);
         queryParameters =
           queryParameters @ [ArgInt (ps_Limit searchParams), ArgInt (ps_Offset searchParams)]
     in (baseQuery, queryParameters))"

fun scanPatients :: "(Error + Patient) list \<Rightarrow> Patient list \<Rightarrow> Error + Patient list" where
  "scanPatients [] patients = Inr patients"
| "scanPatients (Inl scanError # rest) patients = Inl scanError"
| "scanPatients (Inr patient # rest) patients = scanPatients rest (patients @ [patient])"

definition PatientRepository_Search ::
  "(string \<Rightarrow> string) \<Rightarrow> 'db QueryContext \<Rightarrow> 'db \<Rightarrow> PatientSearchParams \<Rightarrow>
     (Error + Patient list) \<times> 'db" where
  "PatientRepository_Search unicodeToLower queryContext db searchParams =
    (case patientSearchQuery unicodeToLower searchParams of
       (baseQuery, queryParameters) \<Rightarrow>
        (case queryContext db baseQuery queryParameters of
           (Inl queryError, db') \<Rightarrow> (Inl queryError, db')
         | (Inr rows, db') \<Rightarrow>
            (case scanPatients (rows_Scan rows) [] of
               Inl scanError \<Rightarrow> (Inl scanError, db')
             | Inr patients \<Rightarrow>
                (case rows_Err rows of
                   Some rowsError \<Rightarrow> (Inl rowsError, db')
                 | None \<Rightarrow> (Inr patients, db')))))"

section \<open>Observation repository (internal/repository/observation\_repository.go)\<close>

text \<open>
  A \<open>bson.M\<close> is a map from keys to values; it is kept as a list of pairs with distinct
  keys. \<open>collection.Find\<close> takes the state of the database, the filter and the options; the cursor
  it returns is known by what \<open>cursor.All\<close> then yields: the decoded observations or an
  error.
\<close>

datatype Bson = BString string | BTime Time | BInt int | BDoc "(string \<times> Bson) list"

type_synonym BsonM = "(string \<times> Bson) list"

fun setKey :: "string \<Rightarrow> Bson \<Rightarrow> BsonM \<Rightarrow> BsonM" where
  "setKey k v [] = [(k, v)]"
| "setKey k v ((k', v') # m) = (if k = k' then (k, v) # m else (k', v') # setKey k v m)"

record FindOptions =
  fo_Limit :: "int option"
  fo_Skip :: "int option"
  fo_Sort :: "BsonM option"

type_synonym Cursor = "Error + Observation list"

type_synonym 'db Find = "'db \<Rightarrow> BsonM \<Rightarrow> FindOptions \<Rightarrow> (Error + Cursor) \<times> 'db"

text \<open>
  The sub-document under \<open>effective_date\<close>, made empty when the key is not there yet.
  Only the two date blocks write this key, and they write documents.
\<close>

definition effectiveDate :: "BsonM \<Rightarrow> BsonM" where
  "effectiveDate filterDoc =
    (case map_of filterDoc ''effective_date'' of Some (BDoc m) \<Rightarrow> m | _ \<Rightarrow> [])"

definition observationFilter :: "ObservationSearchParams \<Rightarrow> BsonM" where
  "observationFilter searchParams =
    (let filterDoc = [];
         filterDoc = (if os_PatientID searchParams \<noteq> ''''
                   then setKey ''patient_id'' (BString (os_PatientID searchParams)) filterDoc
                   else filterDoc);
         filterDoc = (if os_Code searchParams \<noteq> ''''
                   then setKey ''code'' (BString (os_Code searchParams)) filterDoc
                   else filterDoc);
         filterDoc = (if os_Category searchParams \<noteq> ''''
                   then setKey ''category'' (BString (os_Category searchParams)) filterDoc
                   else filterDoc);
         filterDoc = (if os_Status searchParams \<noteq> ''''
                   then setKey ''status'' (BString (os_Status searchParams)) filterDoc
                   else filterDoc);
         filterDoc = (case os_DateGreaterThan searchParams of
                     Some date \<Rightarrow>
                      setKey ''effective_date''
                        (BDoc (setKey ''$gte'' (BTime date) (effectiveDate filterDoc))) filterDoc
                   | None \<Rightarrow> filterDoc);
         filterDoc = (case os_DateLessThan searchParams of
                     Some date \<Rightarrow>
                      setKey ''effective_date''
                        (BDoc (setKey ''$lte'' (BTime date) (effectiveDate filterDoc))) filterDoc
                   | None \<Rightarrow> filterDoc)
     in filterDoc)"

definition observationFindOptions :: "ObservationSearchParams \<Rightarrow> FindOptions" where
  "observationFindOptions searchParams =
    (let findOptions = \<lparr>fo_Limit = None, fo_Skip = None, fo_Sort = None\<rparr>;
         findOptions = findOptions\<lparr>fo_Limit := Some (os_Limit searchParams)\<rparr>;
         findOptions = findOptions\<lparr>fo_Skip := Some (os_Offset searchParams)\<rparr>;
         sortBy = ''created_at'';
         sortOrder = - 1;
         sortBy =
           (if os_SortBy searchParams \<noteq> ''''
            then (let validSortFields =
                        map_of [(''effective_date'', ''effective_date''), (''code'', ''code''),
                                (''status'', ''status''), (''created_at'', ''created_at'')]
                  in case validSortFields (os_SortBy searchParams) of
                       Some field \<Rightarrow> field
                     | None \<Rightarrow> sortBy)
            else sortBy);
         sortOrder = (if os_SortOrder searchParams = ''asc'' then 1 else sortOrder)
     in findOptions\<lparr>fo_Sort := Some [(sortBy, BInt sortOrder)]\<rparr>)"

definition ObservationRepository_Search ::
  "'db Find \<Rightarrow> 'db \<Rightarrow> ObservationSearchParams \<Rightarrow> (Error + Observation list) \<times> 'db" where
  "ObservationRepository_Search Find db searchParams =
    (let filterDoc = observationFilter searchParams;
         findOptions = observationFindOptions searchParams
     in case Find db filterDoc findOptions of
          (Inl findError, db') \<Rightarrow>
            (Inl (Errorf ''failed to search observations: '' findError), db')
        | (Inr cursor, db') \<Rightarrow>
           (case cursor of
              Inl decodeError \<Rightarrow>
                (Inl (Errorf ''failed to decode observations: '' decodeError), db')
            | Inr observations \<Rightarrow> (Inr observations, db')))"

section \<open>Wire resources\<close>

text \<open>
  The types of the FHIR library, with the fields this program reads or writes. A pointer
  field is an \<open>option\<close>, nil being \<open>None\<close>; a slice is a list.
\<close>

record HumanName =
  hn_Family :: "string option"
  hn_Given :: "string list"

record Identifier =
  id_System :: "string option"
  id_Value :: "string option"

datatype AdministrativeGender =
    AdministrativeGenderMale
  | AdministrativeGenderFemale
  | AdministrativeGenderOther
  | AdministrativeGenderUnknown

record FhirPatient =
  fp_Id :: "string option"
  fp_Active :: "bool option"
  fp_Name :: "HumanName list"
  fp_Gender :: "AdministrativeGender option"
  fp_BirthDate :: "string option"
  fp_Identifier :: "Identifier list"

record Coding =
  c_System :: "string option"
  c_Code :: "string option"
  c_Display :: "string option"

record CodeableConcept =
  cc_Coding :: "Coding list"

record Reference =
  ref_Reference :: "string option"

text \<open>The value of a quantity is a \<open>json.Number\<close>: the text of the number.\<close>

record Quantity =
  q_Value :: "string option"
  q_Unit :: "string option"

datatype ObservationStatus =
    ObservationStatusRegistered
  | ObservationStatusPreliminary
  | ObservationStatusFinal
  | ObservationStatusAmended
  | ObservationStatusCorrected
  | ObservationStatusCancelled
  | ObservationStatusEnteredInError
  | ObservationStatusUnknown

record FhirObservationComponent =
  foc_Code :: CodeableConcept
  foc_ValueQuantity :: "Quantity option"
  foc_ValueString :: "string option"

record FhirObservation =
  fobs_Id :: "string option"
  fobs_Status :: ObservationStatus
  fobs_Category :: "CodeableConcept list"
  fobs_Code :: CodeableConcept
  fobs_Subject :: "Reference option"
  fobs_EffectiveDateTime :: "string option"
  fobs_Issued :: "string option"
  fobs_ValueQuantity :: "Quantity option"
  fobs_ValueString :: "string option"
  fobs_Component :: "FhirObservationComponent list"

section \<open>Patient mapper (internal/models/patient\_mapper.go)\<close>

fun mapGenderToFHIR :: "string \<Rightarrow> AdministrativeGender" where
  "mapGenderToFHIR gender =
    (if gender = ''male'' then AdministrativeGenderMale
     else if gender = ''female'' then AdministrativeGenderFemale
     else if gender = ''other'' then AdministrativeGenderOther
     else AdministrativeGenderUnknown)"

fun mapGenderFromFHIR :: "AdministrativeGender \<Rightarrow> string" where
  "mapGenderFromFHIR AdministrativeGenderMale = ''male''"
| "mapGenderFromFHIR AdministrativeGenderFemale = ''female''"
| "mapGenderFromFHIR AdministrativeGenderOther = ''other''"
| "mapGenderFromFHIR _ = ''unknown''"

definition PatientMapper_ToFHIR :: "Patient \<Rightarrow> FhirPatient" where
  "PatientMapper_ToFHIR patient =
    (let fhirGender =
           (if p_Gender patient \<noteq> '''' then Some (mapGenderToFHIR (p_Gender patient))
            else None);
         fhirBirthDate =
           (case p_BirthDate patient of
              Some birthDate \<Rightarrow> Some (time_Format birthDate ''2006-01-02'')
            | None \<Rightarrow> None);
         fhirPatient =
           \<lparr>fp_Id = Some (p_ID patient),
            fp_Active = Some (p_Active patient),
            fp_Name = [\<lparr>hn_Family = Some (p_FamilyName patient),
                        hn_Given = [p_GivenName patient]\<rparr>],
            fp_Gender = fhirGender,
            fp_BirthDate = fhirBirthDate,
            fp_Identifier = []\<rparr>
     in if p_IdentifierSystem patient \<noteq> '''' \<and> p_IdentifierValue patient \<noteq> ''''
        then fhirPatient\<lparr>fp_Identifier :=
               [\<lparr>id_System = Some (p_IdentifierSystem patient),
                 id_Value = Some (p_IdentifierValue patient)\<rparr>]\<rparr>
        else fhirPatient)"

text \<open>The zero \<open>time.Time\<close>: January 1 of year 1, midnight, UTC.\<close>

definition zeroTime :: Time where
  "zeroTime = \<lparr>t_year = 1, t_month = 1, t_day = 1, t_hour = 0, t_minute = 0, t_second = 0,
               t_nsec = 0, t_offset = 0\<rparr>"

text \<open>
  \<open>FromFHIR\<close> starts from the zero \<open>Patient\<close> and fills one field in each of its \<open>if\<close>
  statements; no field is written twice, so the record below gives every field by the
  statement that writes it, or its zero value.
\<close>

definition PatientMapper_FromFHIR :: "FhirPatient \<Rightarrow> Patient" where
  "PatientMapper_FromFHIR fhirPatient =
    \<lparr>p_ID = (case fp_Id fhirPatient of Some i \<Rightarrow> i | None \<Rightarrow> ''''),
     p_IdentifierSystem =
       (case fp_Identifier fhirPatient of
          [] \<Rightarrow> ''''
        | ident # _ \<Rightarrow> (case id_System ident of Some s \<Rightarrow> s | None \<Rightarrow> '''')),
     p_IdentifierValue =
       (case fp_Identifier fhirPatient of
          [] \<Rightarrow> ''''
        | ident # _ \<Rightarrow> (case id_Value ident of Some v \<Rightarrow> v | None \<Rightarrow> '''')),
     p_Active = (case fp_Active fhirPatient of Some a \<Rightarrow> a | None \<Rightarrow> False),
     p_FamilyName =
       (case fp_Name fhirPatient of
          [] \<Rightarrow> ''''
        | name # _ \<Rightarrow> (case hn_Family name of Some f \<Rightarrow> f | None \<Rightarrow> '''')),
     p_GivenName =
       (case fp_Name fhirPatient of
          [] \<Rightarrow> ''''
        | name # _ \<Rightarrow> (case hn_Given name of [] \<Rightarrow> '''' | g # _ \<Rightarrow> g)),
     p_Gender =
       (case fp_Gender fhirPatient of Some g \<Rightarrow> mapGenderFromFHIR g | None \<Rightarrow> ''''),
     p_BirthDate =
       (case fp_BirthDate fhirPatient of
          Some birthDate \<Rightarrow> time_Parse ''2006-01-02'' birthDate
        | None \<Rightarrow> None),
     p_CreatedAt = zeroTime,
     p_UpdatedAt = zeroTime\<rparr>"

section \<open>Observation mapper (internal/models/observation\_mapper.go)\<close>

text \<open>
  What \<open>FromFHIR\<close> takes from outside: the clock (\<open>lib_Now n\<close> is what the \<open>n\<close>-th call of
  \<open>time.Now\<close> returns), \<open>time.Parse\<close> with the layout \<open>time.RFC3339\<close>, and the
  \<open>Float64\<close> method of \<open>json.Number\<close>.
\<close>

record Lib =
  lib_Now :: "nat \<Rightarrow> Time"
  lib_ParseRFC3339 :: "string \<Rightarrow> Time option"
  lib_Float64 :: "string \<Rightarrow> float64 option"

text \<open>The status \<open>switch\<close> of \<open>FromFHIR\<close>.\<close>

fun statusString :: "ObservationStatus \<Rightarrow> string" where
  "statusString ObservationStatusRegistered = ''registered''"
| "statusString ObservationStatusPreliminary = ''preliminary''"
| "statusString ObservationStatusFinal = ''final''"
| "statusString ObservationStatusAmended = ''amended''"
| "statusString _ = ''final''"

text \<open>
  The block "Extract value", the same for an observation and for a component: the
  quantity, its unit and the string value.
\<close>

definition extractValue ::
  "Lib \<Rightarrow> Quantity option \<Rightarrow> string option \<Rightarrow> float64 option \<times> string \<times> string" where
  "extractValue lib valueQuantity valueString =
    (let otherwise = (None, '''', (case valueString of Some s \<Rightarrow> s | None \<Rightarrow> ''''))
     in case valueQuantity of
          None \<Rightarrow> otherwise
        | Some quantity \<Rightarrow>
           (case q_Value quantity of
              None \<Rightarrow> otherwise
            | Some number \<Rightarrow>
               (lib_Float64 lib number,
                (case q_Unit quantity of Some u \<Rightarrow> u | None \<Rightarrow> ''''),
                '''')))"

definition extractCoding :: "CodeableConcept \<Rightarrow> string \<times> string \<times> string" where
  "extractCoding concept =
    (case cc_Coding concept of
       [] \<Rightarrow> ('''', '''', '''')
     | coding # _ \<Rightarrow>
        ((case c_Code coding of Some c \<Rightarrow> c | None \<Rightarrow> ''''),
         (case c_System coding of Some s \<Rightarrow> s | None \<Rightarrow> ''''),
         (case c_Display coding of Some d \<Rightarrow> d | None \<Rightarrow> '''')))"

definition componentFromFHIR :: "Lib \<Rightarrow> FhirObservationComponent \<Rightarrow> ObservationComponent" where
  "componentFromFHIR lib fhirComponent =
    (case extractCoding (foc_Code fhirComponent) of
       (code, codeSystem, codeDisplay) \<Rightarrow>
        (case extractValue lib (foc_ValueQuantity fhirComponent)
                (foc_ValueString fhirComponent) of
           (valueQuantity, valueUnit, valueString) \<Rightarrow>
            \<lparr>oc_Code = code, oc_CodeSystem = codeSystem, oc_CodeDisplay = codeDisplay,
             oc_ValueQuantity = valueQuantity, oc_ValueUnit = valueUnit,
             oc_ValueString = valueString\<rparr>))"

definition ObservationMapper_FromFHIR :: "Lib \<Rightarrow> FhirObservation \<Rightarrow> Observation" where
  "ObservationMapper_FromFHIR lib fhirObservation =
    (case extractCoding (fobs_Code fhirObservation) of
       (code, codeSystem, codeDisplay) \<Rightarrow>
        (case extractValue lib (fobs_ValueQuantity fhirObservation)
                (fobs_ValueString fhirObservation) of
           (valueQuantity, valueUnit, valueString) \<Rightarrow>
            \<lparr>o_ID = (case fobs_Id fhirObservation of Some i \<Rightarrow> i | None \<Rightarrow> ''''),
             o_PatientID =
               (case fobs_Subject fhirObservation of
                  None \<Rightarrow> ''''
                | Some subject \<Rightarrow>
                   (case ref_Reference subject of
                      None \<Rightarrow> ''''
                    | Some reference \<Rightarrow>
                       if length reference > 8 \<and> take 8 reference = ''Patient/''
                       then drop 8 reference else '''')),
             o_Status = statusString (fobs_Status fhirObservation),
             o_Category =
               (case fobs_Category fhirObservation of
                  [] \<Rightarrow> ''''
                | category # _ \<Rightarrow>
                   (case cc_Coding category of
                      [] \<Rightarrow> ''''
                    | coding # _ \<Rightarrow> (case c_Code coding of Some c \<Rightarrow> c | None \<Rightarrow> ''''))),
             o_Code = code,
             o_CodeSystem = codeSystem,
             o_CodeDisplay = codeDisplay,
             o_ValueQuantity = valueQuantity,
             o_ValueUnit = valueUnit,
             o_ValueString = valueString,
             o_EffectiveDate =
               (case fobs_EffectiveDateTime fhirObservation of
                  Some effective \<Rightarrow> time_Parse ''2006-01-02T15:04:05Z'' effective
                | None \<Rightarrow> None),
             o_IssuedDate =
               (case fobs_Issued fhirObservation of
                  None \<Rightarrow> lib_Now lib 0
                | Some issued \<Rightarrow>
                   (case lib_ParseRFC3339 lib issued of
                      Some parsedTime \<Rightarrow> parsedTime
                    | None \<Rightarrow> lib_Now lib 0)),
             o_Components =
               (if length (fobs_Component fhirObservation) > 0
                then map (componentFromFHIR lib) (fobs_Component fhirObservation)
                else []),
             o_CreatedAt = lib_Now lib 1,
             o_UpdatedAt = lib_Now lib 2\<rparr>))"

section \<open>Patient service (internal/service/patient\_service.go)\<close>

text \<open>
  The repository behind the service is any implementation of the interface
  \<open>PatientRepository\<close>: its methods take the state of the store and return the new one.
  The service calls \<open>Create\<close> and \<open>Update\<close> in the two operations below.
\<close>

record 'db PatientRepository =
  repo_Create :: "'db \<Rightarrow> Patient \<Rightarrow> (Error + Patient) \<times> 'db"
  repo_Update :: "'db \<Rightarrow> Patient \<Rightarrow> (Error + Patient) \<times> 'db"

definition PatientService_CreatePatient ::
  "'db PatientRepository \<Rightarrow> 'db \<Rightarrow> FhirPatient \<Rightarrow> (Error + FhirPatient) \<times> 'db" where
  "PatientService_CreatePatient patientRepository db fhirPatient =
    (let domainPatient = PatientMapper_FromFHIR fhirPatient;
         domainPatient =
           (if fp_Active fhirPatient = None then domainPatient\<lparr>p_Active := True\<rparr>
            else domainPatient)
     in case repo_Create patientRepository db domainPatient of
          (Inl createError, db') \<Rightarrow> (Inl createError, db')
        | (Inr createdPatient, db') \<Rightarrow> (Inr (PatientMapper_ToFHIR createdPatient), db'))"

definition PatientService_UpdatePatient ::
  "'db PatientRepository \<Rightarrow> 'db \<Rightarrow> string \<Rightarrow> FhirPatient \<Rightarrow> (Error + FhirPatient) \<times> 'db"
  where
  "PatientService_UpdatePatient patientRepository db patientID fhirPatient =
    (let domainPatient = PatientMapper_FromFHIR fhirPatient;
         domainPatient = domainPatient\<lparr>p_ID := patientID\<rparr>
     in case repo_Update patientRepository db domainPatient of
          (Inl updateError, db') \<Rightarrow> (Inl updateError, db')
        | (Inr updatedPatient, db') \<Rightarrow> (Inr (PatientMapper_ToFHIR updatedPatient), db'))"

section \<open>Notions used to state the properties\<close>

text \<open>A text that \<open>strconv\<close> reads as a decimal integer: an optional sign and digits.\<close>

definition isNumeric :: "string \<Rightarrow> bool" where
  "isNumeric s =
    (case s of
       [] \<Rightarrow> False
     | c # cs \<Rightarrow>
        (let body = (if c = CHR ''-'' \<or> c = CHR ''+'' then cs else s)
         in body \<noteq> [] \<and> list_all isDigit body))"

text \<open>A calendar date that exists: the invariant of every \<open>time.Time\<close>.\<close>

definition validDate :: "Time \<Rightarrow> bool" where
  "validDate t \<longleftrightarrow> 1 \<le> t_month t \<and> t_month t \<le> 12 \<and> 1 \<le> t_day t \<and> t_day t \<le> daysIn (t_month t) (t_year t)"

text \<open>The comparison prefixes of a date parameter.\<close>

definition comparisonPrefixes :: "string list" where
  "comparisonPrefixes = [''ge'', ''le'', ''gt'', ''lt'', ''eq'']"

text \<open>A database that is down: it answers every query with the error \<open>err\<close>.\<close>

definition downQueryContext :: "Error \<Rightarrow> 'db QueryContext" where
  "downQueryContext err db query args = (Inl err, db)"

definition downFind :: "Error \<Rightarrow> 'db Find" where
  "downFind err db filterDoc findOptions = (Inl err, db)"

text \<open>
  A repository that stores nothing and keeps the list of the records it was given, like
  the mock repository of the service tests.
\<close>

definition recordingRepository :: "(Patient list) PatientRepository" where
  "recordingRepository =
    \<lparr>repo_Create = (\<lambda>given patient. (Inr patient, given @ [patient])),
     repo_Update = (\<lambda>given patient. (Inr patient, given @ [patient]))\<rparr>"

text \<open>The date of a time: the same day at midnight, UTC.\<close>

definition dateOnly :: "Time \<Rightarrow> Time" where
  "dateOnly t = \<lparr>t_year = t_year t, t_month = t_month t, t_day = t_day t, t_hour = 0,
                 t_minute = 0, t_second = 0, t_nsec = 0, t_offset = 0\<rparr>"

text \<open>A library whose clock stands still and whose parsers accept nothing.\<close>

definition stubLib :: Lib where
  "stubLib = \<lparr>lib_Now = (\<lambda>n. zeroTime), lib_ParseRFC3339 = (\<lambda>s. None),
              lib_Float64 = (\<lambda>s. None)\<rparr>"

text \<open>
  A database with no rows that keeps the list of the queries it was sent, each with its
  arguments.
\<close>

definition recordingQueryContext :: "((string \<times> SqlArg list) list) QueryContext" where
  "recordingQueryContext sent query args =
    (Inr \<lparr>rows_Scan = [], rows_Err = None\<rparr>, sent @ [(query, args)])"

section \<open>Properties of the query parser\<close>

subsection \<open>Digits and integers\<close>

lemma digitChar_numerals:
  "digitChar 0 = CHR ''0''" "digitChar 1 = CHR ''1''" "digitChar 2 = CHR ''2''"
  "digitChar 3 = CHR ''3''" "digitChar 4 = CHR ''4''" "digitChar 5 = CHR ''5''"
  "digitChar 6 = CHR ''6''" "digitChar 7 = CHR ''7''" "digitChar 8 = CHR ''8''"
  "digitChar 9 = CHR ''9''" "digitChar (Suc 0) = CHR ''1''"
  by (simp_all add: digitChar_def char_of_def bit_Suc_0_iff)

lemma digitVal_digitChar: "d < 10 \<Longrightarrow> digitVal (digitChar d) = int d"
  by (simp add: digitVal_def digitChar_def)

lemma isDigit_digitChar: "d < 10 \<Longrightarrow> isDigit (digitChar d)"
  by (simp add: isDigit_def digitChar_def)

lemma digitsVal_snoc: "digitsVal (xs @ [c]) = digitsVal xs * 10 + digitVal c"
  by (simp add: digitsVal_def)

lemma decDigits_nonempty: "decDigits n \<noteq> []"
  by (subst decDigits.simps) simp

lemma decDigits_digits: "list_all isDigit (decDigits n)"
proof (induction n rule: decDigits.induct)
  case (1 n)
  show ?case
  proof (cases "n < 10")
    case True
    then show ?thesis by (subst decDigits.simps) (simp add: isDigit_digitChar)
  next
    case False
    with 1 show ?thesis by (subst decDigits.simps) (simp add: isDigit_digitChar)
  qed
qed

lemma digitsVal_decDigits: "digitsVal (decDigits n) = int n"
proof (induction n rule: decDigits.induct)
  case (1 n)
  show ?case
  proof (cases "n < 10")
    case True
    then show ?thesis
      by (subst decDigits.simps) (simp add: digitsVal_def digitVal_digitChar)
  next
    case False
    with 1 have "digitsVal (decDigits (n div 10)) = int (n div 10)" by simp
    moreover have "int (n div 10) * 10 + int (n mod 10) = int n" by arith
    ultimately show ?thesis using False
      by (subst decDigits.simps) (simp add: digitsVal_snoc digitVal_digitChar)
  qed
qed

lemma isDigit_not_sign: "isDigit c \<Longrightarrow> c \<noteq> CHR ''-'' \<and> c \<noteq> CHR ''+''"
  by (auto simp: isDigit_def)

lemma Atoi_digits:
  assumes "ds \<noteq> []" "list_all isDigit ds"
  shows "Atoi ds = (if digitsVal ds < minInt \<or> maxInt < digitsVal ds then Inl ErrRange
                    else Inr (digitsVal ds))"
proof -
  from assms obtain c cs where ds: "ds = c # cs" by (cases ds) auto
  with assms have "isDigit c" by simp
  then have "c \<noteq> CHR ''-''" "c \<noteq> CHR ''+''" using isDigit_not_sign by auto
  with assms ds show ?thesis by (simp add: Atoi_def)
qed

lemma Atoi_neg_digits:
  assumes "ds \<noteq> []" "list_all isDigit ds"
  shows "Atoi (CHR ''-'' # ds) = (if - digitsVal ds < minInt \<or> maxInt < - digitsVal ds
                                  then Inl ErrRange else Inr (- digitsVal ds))"
  using assms by (simp add: Atoi_def)

lemma Atoi_Itoa:
  "Atoi (Itoa n) = (if n < minInt \<or> maxInt < n then Inl ErrRange else Inr n)"
proof (cases "n < 0")
  case True
  then show ?thesis
    by (simp add: Itoa_def Atoi_neg_digits decDigits_nonempty decDigits_digits digitsVal_decDigits)
next
  case False
  then show ?thesis
    by (simp add: Itoa_def Atoi_digits decDigits_nonempty decDigits_digits digitsVal_decDigits)
qed

lemma Atoi_not_numeric: "\<not> isNumeric s \<Longrightarrow> Atoi s = Inl ErrSyntax"
  by (auto simp: isNumeric_def Atoi_def Let_def split: list.splits)

lemma Itoa_nonempty: "Itoa n \<noteq> []"
  by (simp add: Itoa_def decDigits_nonempty)

lemma minInt_neg: "minInt < 0" and maxInt_big: "100 < maxInt"
  by (simp_all add: minInt_def maxInt_def intSize_def)

lemmas patient_steps =
  patient_name_def patient_family_def patient_given_def patient_gender_def
  patient_birthdate_def patient_active_def patient_sort_def patient_count_def
  patient_offset_def

lemmas observation_steps =
  observation_patient_def observation_code_def observation_category_def
  observation_status_def observation_date_def observation_sort_def observation_count_def
  observation_offset_def

lemma patient_Limit_steps:
  "ps_Limit (patient_name q sp) = ps_Limit sp"
  "ps_Limit (patient_family q sp) = ps_Limit sp"
  "ps_Limit (patient_given q sp) = ps_Limit sp"
  "ps_Limit (patient_gender q sp) = ps_Limit sp"
  "ps_Limit (patient_birthdate q sp) = ps_Limit sp"
  "ps_Limit (patient_active q sp) = ps_Limit sp"
  "ps_Limit (patient_sort q sp) = ps_Limit sp"
  "ps_Limit (patient_offset q sp) = ps_Limit sp"
  by (simp_all add: patient_steps Let_def split: sum.splits prod.splits option.splits)

lemma patient_Offset_steps:
  "ps_Offset (patient_name q sp) = ps_Offset sp"
  "ps_Offset (patient_family q sp) = ps_Offset sp"
  "ps_Offset (patient_given q sp) = ps_Offset sp"
  "ps_Offset (patient_gender q sp) = ps_Offset sp"
  "ps_Offset (patient_birthdate q sp) = ps_Offset sp"
  "ps_Offset (patient_active q sp) = ps_Offset sp"
  "ps_Offset (patient_sort q sp) = ps_Offset sp"
  "ps_Offset (patient_count q sp) = ps_Offset sp"
  by (simp_all add: patient_steps Let_def split: sum.splits prod.splits option.splits)

lemma observation_Limit_steps:
  "os_Limit (observation_patient q sp) = os_Limit sp"
  "os_Limit (observation_code q sp) = os_Limit sp"
  "os_Limit (observation_category q sp) = os_Limit sp"
  "os_Limit (observation_status q sp) = os_Limit sp"
  "os_Limit (observation_date q sp) = os_Limit sp"
  "os_Limit (observation_sort q sp) = os_Limit sp"
  "os_Limit (observation_offset q sp) = os_Limit sp"
  by (simp_all add: observation_steps Let_def split: sum.splits prod.splits option.splits)

lemma observation_Offset_steps:
  "os_Offset (observation_patient q sp) = os_Offset sp"
  "os_Offset (observation_code q sp) = os_Offset sp"
  "os_Offset (observation_category q sp) = os_Offset sp"
  "os_Offset (observation_status q sp) = os_Offset sp"
  "os_Offset (observation_date q sp) = os_Offset sp"
  "os_Offset (observation_sort q sp) = os_Offset sp"
  "os_Offset (observation_count q sp) = os_Offset sp"
  by (simp_all add: observation_steps Let_def split: sum.splits prod.splits option.splits)

lemma patient_Limit:
  "ps_Limit (ParsePatientSearchParams q) =
     (case Atoi (Get q ''_count'') of
        Inr n \<Rightarrow> if n > 100 then 100 else if n > 0 then n else 10
      | Inl e \<Rightarrow> 10)"
  by (simp add: ParsePatientSearchParams_def Let_def patient_Limit_steps patient_count_def
      Atoi_def split: sum.splits)

lemma patient_Offset:
  "ps_Offset (ParsePatientSearchParams q) =
     (case Atoi (Get q ''_offset'') of Inr n \<Rightarrow> if n \<ge> 0 then n else 0 | Inl e \<Rightarrow> 0)"
  by (simp add: ParsePatientSearchParams_def Let_def patient_Offset_steps patient_offset_def
      Atoi_def split: sum.splits)

lemma observation_Limit:
  "os_Limit (ParseObservationSearchParams q) =
     (case Atoi (Get q ''_count'') of
        Inr n \<Rightarrow> if n > 100 then 100 else if n > 0 then n else 10
      | Inl e \<Rightarrow> 10)"
  by (simp add: ParseObservationSearchParams_def Let_def observation_Limit_steps
      observation_count_def Atoi_def split: sum.splits)

lemma observation_Offset:
  "os_Offset (ParseObservationSearchParams q) =
     (case Atoi (Get q ''_offset'') of Inr n \<Rightarrow> if n \<ge> 0 then n else 0 | Inl e \<Rightarrow> 0)"
  by (simp add: ParseObservationSearchParams_def Let_def observation_Offset_steps
      observation_offset_def Atoi_def split: sum.splits)

text \<open>
  C1 (pagination). As stated in the specification the property fails for numbers beyond
  the range of \<open>int\<close> (see \<open>C1_range_counterexample\<close>). What holds: for a
  \<open>_count\<close> that is the decimal text of \<open>N\<close>, the limit is \<open>N\<close> when \<open>1 \<le> N \<le> 100\<close>,
  100 when \<open>100 < N \<le> maxInt\<close>, and the default 10 when \<open>N \<le> 0\<close>, when \<open>N\<close> exceeds
  \<open>maxInt\<close>, and when the text is not a number or is absent; for an \<open>_offset\<close> that is the
  decimal text of \<open>M\<close>, the offset is \<open>M\<close> when \<open>0 \<le> M \<le> maxInt\<close> and 0 otherwise.
  The limit is always in \<open>[1, 100]\<close> and the offset is never negative, in both parsers.
\<close>

theorem C1_pagination:
  "(Get q ''_count'' = Itoa N \<and> 1 \<le> N \<and> N \<le> 100 \<longrightarrow>
      ps_Limit (ParsePatientSearchParams q) = N \<and>
      os_Limit (ParseObservationSearchParams q) = N) \<and>
   (Get q ''_count'' = Itoa N \<and> 100 < N \<and> N \<le> maxInt \<longrightarrow>
      ps_Limit (ParsePatientSearchParams q) = 100 \<and>
      os_Limit (ParseObservationSearchParams q) = 100) \<and>
   (Get q ''_count'' = Itoa N \<and> (N \<le> 0 \<or> maxInt < N) \<longrightarrow>
      ps_Limit (ParsePatientSearchParams q) = 10 \<and>
      os_Limit (ParseObservationSearchParams q) = 10) \<and>
   (\<not> isNumeric (Get q ''_count'') \<longrightarrow>
      ps_Limit (ParsePatientSearchParams q) = 10 \<and>
      os_Limit (ParseObservationSearchParams q) = 10) \<and>
   (Get q ''_offset'' = Itoa M \<and> 0 \<le> M \<and> M \<le> maxInt \<longrightarrow>
      ps_Offset (ParsePatientSearchParams q) = M \<and>
      os_Offset (ParseObservationSearchParams q) = M) \<and>
   (Get q ''_offset'' = Itoa M \<and> (M < 0 \<or> maxInt < M) \<longrightarrow>
      ps_Offset (ParsePatientSearchParams q) = 0 \<and>
      os_Offset (ParseObservationSearchParams q) = 0) \<and>
   (\<not> isNumeric (Get q ''_offset'') \<longrightarrow>
      ps_Offset (ParsePatientSearchParams q) = 0 \<and>
      os_Offset (ParseObservationSearchParams q) = 0) \<and>
   1 \<le> ps_Limit (ParsePatientSearchParams q) \<and> ps_Limit (ParsePatientSearchParams q) \<le> 100 \<and>
   0 \<le> ps_Offset (ParsePatientSearchParams q) \<and>
   1 \<le> os_Limit (ParseObservationSearchParams q) \<and>
   os_Limit (ParseObservationSearchParams q) \<le> 100 \<and>
   0 \<le> os_Offset (ParseObservationSearchParams q)"
proof -
  have a: "Get q ''_count'' = Itoa N \<Longrightarrow> 1 \<le> N \<Longrightarrow> N \<le> 100 \<Longrightarrow>
      ps_Limit (ParsePatientSearchParams q) = N \<and> os_Limit (ParseObservationSearchParams q) = N"
    using minInt_neg maxInt_big by (simp add: patient_Limit observation_Limit Atoi_Itoa)
  have b: "Get q ''_count'' = Itoa N \<Longrightarrow> 100 < N \<Longrightarrow> N \<le> maxInt \<Longrightarrow>
      ps_Limit (ParsePatientSearchParams q) = 100 \<and>
      os_Limit (ParseObservationSearchParams q) = 100"
    using minInt_neg by (simp add: patient_Limit observation_Limit Atoi_Itoa)
  have c: "Get q ''_count'' = Itoa N \<Longrightarrow> N \<le> 0 \<or> maxInt < N \<Longrightarrow>
      ps_Limit (ParsePatientSearchParams q) = 10 \<and>
      os_Limit (ParseObservationSearchParams q) = 10"
    using maxInt_big by (auto simp: patient_Limit observation_Limit Atoi_Itoa)
  have d: "\<not> isNumeric (Get q ''_count'') \<Longrightarrow>
      ps_Limit (ParsePatientSearchParams q) = 10 \<and>
      os_Limit (ParseObservationSearchParams q) = 10"
    by (simp add: patient_Limit observation_Limit Atoi_not_numeric)
  have e: "Get q ''_offset'' = Itoa M \<Longrightarrow> 0 \<le> M \<Longrightarrow> M \<le> maxInt \<Longrightarrow>
      ps_Offset (ParsePatientSearchParams q) = M \<and>
      os_Offset (ParseObservationSearchParams q) = M"
    using minInt_neg by (simp add: patient_Offset observation_Offset Atoi_Itoa)
  have f: "Get q ''_offset'' = Itoa M \<Longrightarrow> M < 0 \<or> maxInt < M \<Longrightarrow>
      ps_Offset (ParsePatientSearchParams q) = 0 \<and>
      os_Offset (ParseObservationSearchParams q) = 0"
    using maxInt_big by (auto simp: patient_Offset observation_Offset Atoi_Itoa)
  have g: "\<not> isNumeric (Get q ''_offset'') \<Longrightarrow>
      ps_Offset (ParsePatientSearchParams q) = 0 \<and>
      os_Offset (ParseObservationSearchParams q) = 0"
    by (simp add: patient_Offset observation_Offset Atoi_not_numeric)
  have h: "1 \<le> ps_Limit (ParsePatientSearchParams q) \<and>
      ps_Limit (ParsePatientSearchParams q) \<le> 100 \<and>
      0 \<le> ps_Offset (ParsePatientSearchParams q)"
    by (simp add: patient_Limit patient_Offset split: sum.splits)
  have i: "1 \<le> os_Limit (ParseObservationSearchParams q) \<and>
      os_Limit (ParseObservationSearchParams q) \<le> 100 \<and>
      0 \<le> os_Offset (ParseObservationSearchParams q)"
    by (simp add: observation_Limit observation_Offset split: sum.splits)
  from a b c d e f g h i show ?thesis by blast
qed

theorem C1_pagination_witness:
  "ps_Limit (ParsePatientSearchParams [''_count'' \<mapsto> [''50''], ''_offset'' \<mapsto> [''20'']]) = 50 \<and>
   os_Limit (ParseObservationSearchParams [''_count'' \<mapsto> [''50''], ''_offset'' \<mapsto> [''20'']]) = 50 \<and>
   ps_Offset (ParsePatientSearchParams [''_count'' \<mapsto> [''50''], ''_offset'' \<mapsto> [''20'']]) = 20 \<and>
   os_Offset (ParseObservationSearchParams [''_count'' \<mapsto> [''50''], ''_offset'' \<mapsto> [''20'']]) = 20 \<and>
   ps_Limit (ParsePatientSearchParams [''_count'' \<mapsto> [''150''], ''_offset'' \<mapsto> [''-1'']]) = 100 \<and>
   ps_Offset (ParsePatientSearchParams [''_count'' \<mapsto> [''150''], ''_offset'' \<mapsto> [''-1'']]) = 0 \<and>
   ps_Limit (ParsePatientSearchParams [''_count'' \<mapsto> [''0''], ''_offset'' \<mapsto> [''x'']]) = 10 \<and>
   ps_Offset (ParsePatientSearchParams [''_count'' \<mapsto> [''0''], ''_offset'' \<mapsto> [''x'']]) = 0 \<and>
   ps_Limit (ParsePatientSearchParams [''_count'' \<mapsto> [''ten'']]) = 10"
proof -
  have i50: "Itoa 50 = ''50''" and i20: "Itoa 20 = ''20''" and i150: "Itoa 150 = ''150''"
    and im1: "Itoa (- 1) = ''-1''" and i0: "Itoa 0 = ''0''"
    by (simp_all add: Itoa_def decDigits.simps digitChar_numerals)
  have m: "50 \<le> maxInt" "150 \<le> maxInt" "20 \<le> maxInt"
    by (simp_all add: maxInt_def intSize_def)
  have n: "\<not> isNumeric ''x''" "\<not> isNumeric ''ten''"
    by (simp_all add: isNumeric_def isDigit_def)
  note a = C1_pagination [of "[''_count'' \<mapsto> [''50''], ''_offset'' \<mapsto> [''20'']]" 50 20]
  note b = C1_pagination [of "[''_count'' \<mapsto> [''150''], ''_offset'' \<mapsto> [''-1'']]" 150 "- 1"]
  note c = C1_pagination [of "[''_count'' \<mapsto> [''0''], ''_offset'' \<mapsto> [''x'']]" 0 0]
  note d = C1_pagination [of "[''_count'' \<mapsto> [''ten'']]" 0 0]
  from a have a': "ps_Limit (ParsePatientSearchParams [''_count'' \<mapsto> [''50''], ''_offset'' \<mapsto> [''20'']]) = 50 \<and>
   os_Limit (ParseObservationSearchParams [''_count'' \<mapsto> [''50''], ''_offset'' \<mapsto> [''20'']]) = 50 \<and>
   ps_Offset (ParsePatientSearchParams [''_count'' \<mapsto> [''50''], ''_offset'' \<mapsto> [''20'']]) = 20 \<and>
   os_Offset (ParseObservationSearchParams [''_count'' \<mapsto> [''50''], ''_offset'' \<mapsto> [''20'']]) = 20"
    using m by (simp add: Get_def i50 i20)
  from b have b': "ps_Limit (ParsePatientSearchParams [''_count'' \<mapsto> [''150''], ''_offset'' \<mapsto> [''-1'']]) = 100 \<and>
   ps_Offset (ParsePatientSearchParams [''_count'' \<mapsto> [''150''], ''_offset'' \<mapsto> [''-1'']]) = 0"
    using m by (simp add: Get_def i150 im1)
  from c have c': "ps_Limit (ParsePatientSearchParams [''_count'' \<mapsto> [''0''], ''_offset'' \<mapsto> [''x'']]) = 10 \<and>
   ps_Offset (ParsePatientSearchParams [''_count'' \<mapsto> [''0''], ''_offset'' \<mapsto> [''x'']]) = 0"
    using n by (simp add: Get_def i0)
  from d have d': "ps_Limit (ParsePatientSearchParams [''_count'' \<mapsto> [''ten'']]) = 10"
    using n by (simp add: Get_def)
  from a' b' c' d' show ?thesis by blast
qed

theorem C1_range_counterexample:
  "Itoa 9223372036854775808 = ''9223372036854775808'' \<and>
   (100::int) < 9223372036854775808 \<and>
   ps_Limit (ParsePatientSearchParams [''_count'' \<mapsto> [''9223372036854775808'']]) = 10 \<and>
   os_Limit (ParseObservationSearchParams [''_count'' \<mapsto> [''9223372036854775808'']]) = 10 \<and>
   ps_Offset (ParsePatientSearchParams [''_offset'' \<mapsto> [''9223372036854775808'']]) = 0 \<and>
   os_Offset (ParseObservationSearchParams [''_offset'' \<mapsto> [''9223372036854775808'']]) = 0"
proof -
  have i: "Itoa 9223372036854775808 = ''9223372036854775808''"
    by (simp add: Itoa_def decDigits.simps digitChar_numerals)
  have a: "Atoi ''9223372036854775808'' = Inl ErrRange"
    by (simp add: Atoi_def isDigit_def digitsVal_def digitVal_def maxInt_def minInt_def
        intSize_def)
  have e: "Atoi [] = Inl ErrSyntax" by (simp add: Atoi_def)
  show ?thesis
    by (simp add: i a e patient_Limit observation_Limit patient_Offset observation_Offset Get_def)
qed

subsection \<open>Formatting a date and parsing it back\<close>

lemma layout_date: "layoutChunks ''2006-01-02'' =
   [StdLongYear, Lit (CHR ''-''), StdZeroMonth, Lit (CHR ''-''), StdZeroDay]"
  by simp

lemma digitsVal_Cons: "digitsVal (c # cs) = digitVal c * 10 ^ length cs + digitsVal cs"
proof -
  have "foldl (\<lambda>n ch. n * 10 + digitVal ch) a cs = a * 10 ^ length cs + foldl (\<lambda>n ch. n * 10 + digitVal ch) 0 cs" for a
  proof (induction cs arbitrary: a)
    case Nil
    show ?case by simp
  next
    case (Cons x xs)
    have "foldl (\<lambda>n ch. n * 10 + digitVal ch) a (x # xs) = foldl (\<lambda>n ch. n * 10 + digitVal ch) (a * 10 + digitVal x) xs" by simp
    also have "\<dots> = (a * 10 + digitVal x) * 10 ^ length xs + foldl (\<lambda>n ch. n * 10 + digitVal ch) 0 xs"
      by (rule Cons.IH)
    also have "foldl (\<lambda>n ch. n * 10 + digitVal ch) 0 (x # xs) = digitVal x * 10 ^ length xs + foldl (\<lambda>n ch. n * 10 + digitVal ch) 0 xs"
      using Cons.IH [of "digitVal x"] by simp
    ultimately show ?case by (simp add: algebra_simps)
  qed
  from this [of "digitVal c"] show ?thesis by (simp add: digitsVal_def)
qed

lemma digitVal_zero: "digitVal (CHR ''0'') = 0" and isDigit_zero: "isDigit (CHR ''0'')"
  by (simp_all add: digitVal_def isDigit_def)

lemma digitsVal_zeros: "digitsVal (replicate k (CHR ''0'') @ ds) = digitsVal ds"
  by (induction k) (simp_all add: digitsVal_Cons digitVal_zero)

lemma length_decDigits_le: "n < 10 ^ k \<Longrightarrow> 0 < k \<Longrightarrow> length (decDigits n) \<le> k"
proof (induction n arbitrary: k rule: decDigits.induct)
  case (1 n)
  show ?case
  proof (cases "n < 10")
    case True
    with 1(3) show ?thesis by (subst decDigits.simps) simp
  next
    case False
    from 1(3) obtain j where k: "k = Suc j" by (cases k) auto
    with False 1(2) have j: "0 < j" by (cases j) auto
    from 1(2) k have "n div 10 < 10 ^ j" by (simp add: less_mult_imp_div_less mult.commute)
    with 1(1) False j have "length (decDigits (n div 10)) \<le> j" by simp
    with False k show ?thesis by (subst decDigits.simps) simp
  qed
qed

lemma appendInt_nonneg:
  assumes "0 \<le> x" "x < 10 ^ k" "0 < k"
  shows "length (appendInt x k) = k" "list_all isDigit (appendInt x k)"
        "digitsVal (appendInt x k) = x"
proof -
  from assms have "nat x < 10 ^ k"
    by (metis nat_less_iff of_nat_numeral of_nat_power)
  with assms have l: "length (decDigits (nat x)) \<le> k" by (simp add: length_decDigits_le)
  with assms show "length (appendInt x k) = k" by (simp add: appendInt_def Let_def)
  have "list_all isDigit (replicate j (CHR ''0''))" for j
    by (induction j) (simp_all add: isDigit_zero)
  with assms show "list_all isDigit (appendInt x k)"
    by (simp add: appendInt_def Let_def decDigits_digits)
  from assms show "digitsVal (appendInt x k) = x"
    by (simp add: appendInt_def Let_def digitsVal_zeros digitsVal_decDigits)
qed

lemma two_digits:
  assumes "length s = 2" "list_all isDigit s"
  shows "getnum (s @ r) True = Some (digitsVal s, r)"
proof -
  from assms obtain a b where s: "s = [a, b]"
    by (cases s; cases "tl s") auto
  with assms show ?thesis by (simp add: getnum_def digitsVal_def)
qed

lemma daysIn_le: "daysIn m y \<le> 31"
  by (simp add: daysIn_def)

lemma parse_format_date:
  assumes v: "validDate t" and y: "0 \<le> t_year t" "t_year t \<le> 9999"
  shows "time_Parse ''2006-01-02'' (time_Format t ''2006-01-02'') =
         Some \<lparr>t_year = t_year t, t_month = t_month t, t_day = t_day t, t_hour = 0,
               t_minute = 0, t_second = 0, t_nsec = 0, t_offset = 0\<rparr>"
proof -
  let ?Y = "appendInt (t_year t) 4" and ?M = "appendInt (t_month t) 2"
    and ?D = "appendInt (t_day t) 2"
  from v have m: "1 \<le> t_month t" "t_month t \<le> 12" and d: "1 \<le> t_day t" "t_day t \<le> daysIn (t_month t) (t_year t)"
    by (simp_all add: validDate_def)
  from d daysIn_le [of "t_month t" "t_year t"] have d31: "t_day t \<le> 31" by linarith
  from y have Y: "length ?Y = 4" "list_all isDigit ?Y" "digitsVal ?Y = t_year t"
    using appendInt_nonneg [of "t_year t" 4] by simp_all
  from m have M: "length ?M = 2" "list_all isDigit ?M" "digitsVal ?M = t_month t"
    using appendInt_nonneg [of "t_month t" 2] by simp_all
  from d d31 have D: "length ?D = 2" "list_all isDigit ?D" "digitsVal ?D = t_day t"
    using appendInt_nonneg [of "t_day t" 2] by simp_all
  have f: "time_Format t ''2006-01-02'' = ?Y @ CHR ''-'' # ?M @ CHR ''-'' # ?D"
    by (simp add: time_Format_def)
  have gm: "getnum (?M @ CHR ''-'' # ?D) True = Some (t_month t, CHR ''-'' # ?D)"
    using two_digits [OF M(1) M(2)] M(3) by simp
  have gd: "getnum ?D True = Some (t_day t, [])"
    using two_digits [OF D(1) D(2), of "[]"] D(3) by simp
  show ?thesis
    using Y m d by (simp add: time_Parse_def f gm gd Let_def)
qed

subsection \<open>Date filters\<close>

lemma parseDate_prefixed:
  assumes "p \<in> set comparisonPrefixes" "r \<noteq> []"
  shows "parseDateWithPrefix (p @ r) = (tryFormats formats r, p)"
proof -
  from assms(1) have "length p = 2" by (auto simp: comparisonPrefixes_def)
  with assms show ?thesis
    by (auto simp: parseDateWithPrefix_def comparisonPrefixes_def Let_def)
qed

lemma parseDate_plain:
  assumes "length s \<le> 2 \<or> take 2 s \<notin> set comparisonPrefixes"
  shows "parseDateWithPrefix s = (tryFormats formats s, '''')"
  using assms by (auto simp: parseDateWithPrefix_def comparisonPrefixes_def Let_def)

lemma patient_BirthDate_steps:
  "ps_BirthDate (patient_name q sp) = ps_BirthDate sp"
  "ps_BirthDate (patient_family q sp) = ps_BirthDate sp"
  "ps_BirthDate (patient_given q sp) = ps_BirthDate sp"
  "ps_BirthDate (patient_gender q sp) = ps_BirthDate sp"
  "ps_BirthDate (patient_active q sp) = ps_BirthDate sp"
  "ps_BirthDate (patient_sort q sp) = ps_BirthDate sp"
  "ps_BirthDate (patient_count q sp) = ps_BirthDate sp"
  "ps_BirthDate (patient_offset q sp) = ps_BirthDate sp"
  by (simp_all add: patient_steps Let_def split: sum.splits prod.splits option.splits)

lemma patient_BirthDateGreaterThan_steps:
  "ps_BirthDateGreaterThan (patient_name q sp) = ps_BirthDateGreaterThan sp"
  "ps_BirthDateGreaterThan (patient_family q sp) = ps_BirthDateGreaterThan sp"
  "ps_BirthDateGreaterThan (patient_given q sp) = ps_BirthDateGreaterThan sp"
  "ps_BirthDateGreaterThan (patient_gender q sp) = ps_BirthDateGreaterThan sp"
  "ps_BirthDateGreaterThan (patient_active q sp) = ps_BirthDateGreaterThan sp"
  "ps_BirthDateGreaterThan (patient_sort q sp) = ps_BirthDateGreaterThan sp"
  "ps_BirthDateGreaterThan (patient_count q sp) = ps_BirthDateGreaterThan sp"
  "ps_BirthDateGreaterThan (patient_offset q sp) = ps_BirthDateGreaterThan sp"
  by (simp_all add: patient_steps Let_def split: sum.splits prod.splits option.splits)

lemma patient_BirthDateLessThan_steps:
  "ps_BirthDateLessThan (patient_name q sp) = ps_BirthDateLessThan sp"
  "ps_BirthDateLessThan (patient_family q sp) = ps_BirthDateLessThan sp"
  "ps_BirthDateLessThan (patient_given q sp) = ps_BirthDateLessThan sp"
  "ps_BirthDateLessThan (patient_gender q sp) = ps_BirthDateLessThan sp"
  "ps_BirthDateLessThan (patient_active q sp) = ps_BirthDateLessThan sp"
  "ps_BirthDateLessThan (patient_sort q sp) = ps_BirthDateLessThan sp"
  "ps_BirthDateLessThan (patient_count q sp) = ps_BirthDateLessThan sp"
  "ps_BirthDateLessThan (patient_offset q sp) = ps_BirthDateLessThan sp"
  by (simp_all add: patient_steps Let_def split: sum.splits prod.splits option.splits)

lemmas patient_date_steps =
  patient_BirthDate_steps patient_BirthDateGreaterThan_steps patient_BirthDateLessThan_steps


lemma patient_birthdate_absent:
  assumes "Get q ''birthdate'' = []"
  shows "ps_BirthDateGreaterThan (ParsePatientSearchParams q) = None"
    and "ps_BirthDateLessThan (ParsePatientSearchParams q) = None"
    and "ps_BirthDate (ParsePatientSearchParams q) = None"
  using assms
  by (simp_all add: ParsePatientSearchParams_def Let_def patient_date_steps patient_birthdate_def)



lemmas parse_eval =
  time_Parse_def getnum_def isDigit_def digitVal_def digitsVal_def daysIn_def isLeap_def
  formats_def fractionalSecond_def commaOrPeriod_def



text \<open>
  C3 (when a prefix is recognised). The specification asks for a remainder longer than two
  characters; the parser asks for a whole token longer than two characters (see
  \<open>C3_short_remainder_counterexample\<close>). What holds: a token longer than two characters
  that starts with one of the five prefixes has the prefix removed and the rest parsed;
  any other token, every token of at most two characters among them, is parsed whole and
  no prefix is reported.
\<close>

theorem C3_prefix_recognition:
  "(2 < length s \<and> take 2 s \<in> set comparisonPrefixes \<longrightarrow>
      parseDateWithPrefix s = (tryFormats formats (drop 2 s), take 2 s)) \<and>
   (length s \<le> 2 \<or> take 2 s \<notin> set comparisonPrefixes \<longrightarrow>
      parseDateWithPrefix s = (tryFormats formats s, ''''))"
proof -
  have "parseDateWithPrefix s = (tryFormats formats (drop 2 s), take 2 s)"
    if "2 < length s" "take 2 s \<in> set comparisonPrefixes"
  proof -
    from that(1) have "drop 2 s \<noteq> []" by simp
    from parseDate_prefixed [OF that(2) this] show ?thesis by simp
  qed
  with parseDate_plain [of s] show ?thesis by blast
qed

theorem C3_prefix_recognition_witness:
  "parseDateWithPrefix ''ge1990-01-01'' = (tryFormats formats ''1990-01-01'', ''ge'') \<and>
   parseDateWithPrefix ''ge'' = (tryFormats formats ''ge'', '''') \<and>
   parseDateWithPrefix ''1990-01-01'' = (tryFormats formats ''1990-01-01'', '''')"
proof -
  have a: "2 < length ''ge1990-01-01'' \<and> take 2 ''ge1990-01-01'' \<in> set comparisonPrefixes"
    by (simp add: comparisonPrefixes_def)
  have b: "length ''ge'' \<le> 2" by simp
  have c: "take 2 ''1990-01-01'' \<notin> set comparisonPrefixes"
    by (simp add: comparisonPrefixes_def)
  from a C3_prefix_recognition [of "''ge1990-01-01''"]
  have "parseDateWithPrefix ''ge1990-01-01'' = (tryFormats formats ''1990-01-01'', ''ge'')"
    by simp
  moreover from b C3_prefix_recognition [of "''ge''"]
  have "parseDateWithPrefix ''ge'' = (tryFormats formats ''ge'', '''')" by blast
  moreover from c C3_prefix_recognition [of "''1990-01-01''"]
  have "parseDateWithPrefix ''1990-01-01'' = (tryFormats formats ''1990-01-01'', '''')"
    by blast
  ultimately show ?thesis by blast
qed

theorem C3_short_remainder_counterexample:
  "length (drop 2 ''ge12'') \<le> 2 \<and>
   parseDateWithPrefix ''ge12'' = (tryFormats formats ''12'', ''ge'') \<and>
   snd (parseDateWithPrefix ''ge12'') \<noteq> ''''"
  by (simp add: parseDateWithPrefix_def)














section \<open>Properties of the repositories\<close>

lemma patientFilters_SortBy:
  "patientFilters lower (sp\<lparr>ps_SortBy := x\<rparr>) = patientFilters lower sp"
  by (simp add: patientFilters_def)

lemma patientSortOrder_SortBy: "patientSortOrder (sp\<lparr>ps_SortBy := x\<rparr>) = patientSortOrder sp"
  by (simp add: patientSortOrder_def Let_def)

lemma patientSortBy_allowlist:
  "patientSortBy sp =
     (if ps_SortBy sp = ''name'' then ''family_name''
      else if ps_SortBy sp = ''birthdate'' then ''birth_date''
      else if ps_SortBy sp \<in> {''family_name'', ''given_name'', ''gender'', ''created_at''}
      then ps_SortBy sp
      else ''created_at'')"
  by (auto simp: patientSortBy_def Let_def)

lemma patientSortOrder_direction:
  "patientSortOrder sp = (if ps_SortOrder sp = ''asc'' then ''ASC'' else ''DESC'')"
  by (simp add: patientSortOrder_def Let_def)

lemma patientSearchQuery_text:
  "patientSearchQuery lower sp =
     (fst (patientFilters lower sp) @ '' ORDER BY '' @ patientSortBy sp @ '' ''
        @ patientSortOrder sp
        @ '' LIMIT $'' @ Itoa (snd (snd (patientFilters lower sp)))
        @ '' OFFSET $'' @ Itoa (snd (snd (patientFilters lower sp)) + 1),
      fst (snd (patientFilters lower sp)) @ [ArgInt (ps_Limit sp), ArgInt (ps_Offset sp)])"
  by (simp add: patientSearchQuery_def Let_def split_def)

lemma patientSearchQuery_fallback:
  assumes "ps_SortBy sp \<notin> {''name'', ''birthdate'', ''family_name'', ''given_name'', ''gender'',
             ''created_at''}"
  shows "patientSearchQuery lower sp =
         patientSearchQuery lower (sp\<lparr>ps_SortBy := ''created_at''\<rparr>)"
proof -
  from assms have "patientSortBy sp = ''created_at''"
    by (simp add: patientSortBy_allowlist)
  moreover have "patientSortBy (sp\<lparr>ps_SortBy := ''created_at''\<rparr>) = ''created_at''"
    by (simp add: patientSortBy_allowlist)
  ultimately show ?thesis
    by (simp add: patientSearchQuery_def patientFilters_SortBy patientSortOrder_SortBy)
qed

lemma PatientRepository_Search_sends:
  "PatientRepository_Search lower queryContext db sp =
     (case queryContext db (fst (patientSearchQuery lower sp))
             (snd (patientSearchQuery lower sp)) of
        (Inl queryError, db') \<Rightarrow> (Inl queryError, db')
      | (Inr rows, db') \<Rightarrow>
         (case scanPatients (rows_Scan rows) [] of
            Inl scanError \<Rightarrow> (Inl scanError, db')
          | Inr patients \<Rightarrow>
             (case rows_Err rows of
                Some rowsError \<Rightarrow> (Inl rowsError, db')
              | None \<Rightarrow> (Inr patients, db'))))"
  by (simp add: PatientRepository_Search_def split_def)

lemma PatientRepository_Search_recorded:
  "snd (PatientRepository_Search lower recordingQueryContext sent sp) =
     sent @ [patientSearchQuery lower sp]"
  by (simp add: PatientRepository_Search_sends recordingQueryContext_def)

text \<open>
  C5 (patient sort). \<open>Search\<close> sends the database one query. Its text is the filters,
  then \<open>ORDER BY\<close> with a column and a direction, then the limit and the offset. The
  column is \<open>family_name\<close> for \<open>name\<close>, \<open>birth_date\<close> for \<open>birthdate\<close>, the field itself
  for \<open>family_name\<close>, \<open>given_name\<close>, \<open>gender\<close> and \<open>created_at\<close>, and \<open>created_at\<close> for
  anything else, the empty field included; the direction is \<open>ASC\<close> exactly when
  \<open>SortOrder\<close> is \<open>asc\<close> and \<open>DESC\<close> otherwise. What \<open>Search\<close> returns is decided by the
  answer to that query alone. A field outside the list raises no error: the search is
  the search sorted by \<open>created_at\<close>.
\<close>

theorem C5_patient_sort:
  "PatientRepository_Search lower queryContext db sp =
     (case queryContext db
             (fst (patientFilters lower sp) @ '' ORDER BY ''
                @ (if ps_SortBy sp = ''name'' then ''family_name''
                   else if ps_SortBy sp = ''birthdate'' then ''birth_date''
                   else if ps_SortBy sp \<in> {''family_name'', ''given_name'', ''gender'',
                                             ''created_at''}
                   then ps_SortBy sp
                   else ''created_at'')
                @ '' '' @ (if ps_SortOrder sp = ''asc'' then ''ASC'' else ''DESC'')
                @ '' LIMIT $'' @ Itoa (snd (snd (patientFilters lower sp)))
                @ '' OFFSET $'' @ Itoa (snd (snd (patientFilters lower sp)) + 1))
             (fst (snd (patientFilters lower sp))
                @ [ArgInt (ps_Limit sp), ArgInt (ps_Offset sp)]) of
        (Inl queryError, db') \<Rightarrow> (Inl queryError, db')
      | (Inr rows, db') \<Rightarrow>
         (case scanPatients (rows_Scan rows) [] of
            Inl scanError \<Rightarrow> (Inl scanError, db')
          | Inr patients \<Rightarrow>
             (case rows_Err rows of
                Some rowsError \<Rightarrow> (Inl rowsError, db')
              | None \<Rightarrow> (Inr patients, db')))) \<and>
   snd (PatientRepository_Search lower recordingQueryContext [] sp) =
     [(fst (patientFilters lower sp) @ '' ORDER BY ''
         @ (if ps_SortBy sp = ''name'' then ''family_name''
            else if ps_SortBy sp = ''birthdate'' then ''birth_date''
            else if ps_SortBy sp \<in> {''family_name'', ''given_name'', ''gender'',
                                      ''created_at''}
            then ps_SortBy sp
            else ''created_at'')
         @ '' '' @ (if ps_SortOrder sp = ''asc'' then ''ASC'' else ''DESC'')
         @ '' LIMIT $'' @ Itoa (snd (snd (patientFilters lower sp)))
         @ '' OFFSET $'' @ Itoa (snd (snd (patientFilters lower sp)) + 1),
       fst (snd (patientFilters lower sp))
         @ [ArgInt (ps_Limit sp), ArgInt (ps_Offset sp)])] \<and>
   (ps_SortBy sp \<notin> {''name'', ''birthdate'', ''family_name'', ''given_name'', ''gender'',
        ''created_at''} \<longrightarrow>
      PatientRepository_Search lower queryContext db sp =
      PatientRepository_Search lower queryContext db (sp\<lparr>ps_SortBy := ''created_at''\<rparr>))"
proof -
  have q: "patientSearchQuery lower sp =
     (fst (patientFilters lower sp) @ '' ORDER BY ''
        @ (if ps_SortBy sp = ''name'' then ''family_name''
           else if ps_SortBy sp = ''birthdate'' then ''birth_date''
           else if ps_SortBy sp \<in> {''family_name'', ''given_name'', ''gender'',
                                     ''created_at''}
           then ps_SortBy sp
           else ''created_at'')
        @ '' '' @ (if ps_SortOrder sp = ''asc'' then ''ASC'' else ''DESC'')
        @ '' LIMIT $'' @ Itoa (snd (snd (patientFilters lower sp)))
        @ '' OFFSET $'' @ Itoa (snd (snd (patientFilters lower sp)) + 1),
      fst (snd (patientFilters lower sp)) @ [ArgInt (ps_Limit sp), ArgInt (ps_Offset sp)])"
    unfolding patientSearchQuery_text patientSortBy_allowlist patientSortOrder_direction ..
  have a: "PatientRepository_Search lower queryContext db sp =
     (case queryContext db (fst (patientSearchQuery lower sp))
             (snd (patientSearchQuery lower sp)) of
        (Inl queryError, db') \<Rightarrow> (Inl queryError, db')
      | (Inr rows, db') \<Rightarrow>
         (case scanPatients (rows_Scan rows) [] of
            Inl scanError \<Rightarrow> (Inl scanError, db')
          | Inr patients \<Rightarrow>
             (case rows_Err rows of
                Some rowsError \<Rightarrow> (Inl rowsError, db')
              | None \<Rightarrow> (Inr patients, db'))))"
    by (rule PatientRepository_Search_sends)
  have b: "snd (PatientRepository_Search lower recordingQueryContext [] sp) =
      [patientSearchQuery lower sp]"
    using PatientRepository_Search_recorded [of lower "[]" sp] by simp
  have c: "PatientRepository_Search lower queryContext db sp =
      PatientRepository_Search lower queryContext db (sp\<lparr>ps_SortBy := ''created_at''\<rparr>)"
    if "ps_SortBy sp \<notin> {''name'', ''birthdate'', ''family_name'', ''given_name'', ''gender'',
        ''created_at''}"
    using patientSearchQuery_fallback [OF that, of lower]
    by (simp add: PatientRepository_Search_def)
  from a b c show ?thesis unfolding q fst_conv snd_conv by blast
qed

lemma Itoa_small:
  "Itoa 1 = ''1''" "Itoa 2 = ''2''" "Itoa 3 = ''3''"
  by (simp_all add: Itoa_def decDigits.simps digitChar_numerals)

theorem C5_patient_sort_witness:
  "snd (PatientRepository_Search id recordingQueryContext []
     \<lparr>ps_Name = '''', ps_FamilyName = '''', ps_GivenName = '''', ps_Gender = '''',
      ps_BirthDate = None, ps_BirthDateGreaterThan = None, ps_BirthDateLessThan = None,
      ps_Active = None, ps_SortBy = ''bogus'', ps_SortOrder = ''asc'',
      ps_Limit = 10, ps_Offset = 0\<rparr>) =
     [(selectPatients @ '' ORDER BY created_at ASC LIMIT $1 OFFSET $2'',
       [ArgInt 10, ArgInt 0])] \<and>
   snd (PatientRepository_Search id recordingQueryContext []
     \<lparr>ps_Name = '''', ps_FamilyName = '''', ps_GivenName = '''', ps_Gender = ''female'',
      ps_BirthDate = None, ps_BirthDateGreaterThan = None, ps_BirthDateLessThan = None,
      ps_Active = None, ps_SortBy = ''name'', ps_SortOrder = ''desc'',
      ps_Limit = 5, ps_Offset = 20\<rparr>) =
     [(selectPatients @ '' AND gender = $1 ORDER BY family_name DESC LIMIT $2 OFFSET $3'',
       [ArgString ''female'', ArgInt 5, ArgInt 20])] \<and>
   PatientRepository_Search id (downQueryContext (Err ''connection refused'')) ()
     \<lparr>ps_Name = '''', ps_FamilyName = '''', ps_GivenName = '''', ps_Gender = '''',
      ps_BirthDate = None, ps_BirthDateGreaterThan = None, ps_BirthDateLessThan = None,
      ps_Active = None, ps_SortBy = ''bogus'', ps_SortOrder = ''asc'',
      ps_Limit = 10, ps_Offset = 0\<rparr> =
   PatientRepository_Search id (downQueryContext (Err ''connection refused'')) ()
     \<lparr>ps_Name = '''', ps_FamilyName = '''', ps_GivenName = '''', ps_Gender = '''',
      ps_BirthDate = None, ps_BirthDateGreaterThan = None, ps_BirthDateLessThan = None,
      ps_Active = None, ps_SortBy = ''created_at'', ps_SortOrder = ''asc'',
      ps_Limit = 10, ps_Offset = 0\<rparr>"
proof -
  let ?a = "\<lparr>ps_Name = '''', ps_FamilyName = '''', ps_GivenName = '''', ps_Gender = '''',
      ps_BirthDate = None, ps_BirthDateGreaterThan = None, ps_BirthDateLessThan = None,
      ps_Active = None, ps_SortBy = ''bogus'', ps_SortOrder = ''asc'',
      ps_Limit = 10, ps_Offset = 0\<rparr>"
  let ?b = "\<lparr>ps_Name = '''', ps_FamilyName = '''', ps_GivenName = '''', ps_Gender = ''female'',
      ps_BirthDate = None, ps_BirthDateGreaterThan = None, ps_BirthDateLessThan = None,
      ps_Active = None, ps_SortBy = ''name'', ps_SortOrder = ''desc'',
      ps_Limit = 5, ps_Offset = 20\<rparr>"
  have fa: "patientFilters id ?a = (selectPatients, [], 1)"
    by (simp add: patientFilters_def)
  have fb: "patientFilters id ?b =
      (selectPatients @ '' AND gender = $1'', [ArgString ''female''], 2)"
    by (simp add: patientFilters_def Itoa_small)
  note ta = C5_patient_sort [of id "downQueryContext (Err ''connection refused'')" "()" ?a]
  note tb = C5_patient_sort [of id "downQueryContext (Err ''connection refused'')" "()" ?b]
  have a: "snd (PatientRepository_Search id recordingQueryContext [] ?a) =
     [(selectPatients @ '' ORDER BY created_at ASC LIMIT $1 OFFSET $2'',
       [ArgInt 10, ArgInt 0])]"
    using ta [THEN conjunct2, THEN conjunct1] by (simp add: fa Itoa_small)
  have c: "PatientRepository_Search id (downQueryContext (Err ''connection refused'')) () ?a =
      PatientRepository_Search id (downQueryContext (Err ''connection refused'')) ()
        (?a\<lparr>ps_SortBy := ''created_at''\<rparr>)"
    using ta [THEN conjunct2, THEN conjunct2] by simp
  have b: "snd (PatientRepository_Search id recordingQueryContext [] ?b) =
     [(selectPatients @ '' AND gender = $1 ORDER BY family_name DESC LIMIT $2 OFFSET $3'',
       [ArgString ''female'', ArgInt 5, ArgInt 20])]"
    using tb [THEN conjunct2, THEN conjunct1] by (simp add: fb Itoa_small)
  from a b c show ?thesis by simp
qed

lemma Errorf_unwrap:
  "Unwrap (Errorf prefix err) = Some err" "Error_msg (Errorf prefix err) = prefix @ Error_msg err"
  by (simp_all add: Errorf_def)

text \<open>
  C6 (storage errors). The two repositories differ (see
  \<open>C6_observation_wraps_counterexample\<close>). When the query fails, the patient search
  returns the error of the database as it is. The observation search returns a new
  error that wraps it: its message is \<open>failed to search observations: \<close> followed by the
  message of the database error, and \<open>Unwrap\<close> gives the database error back. In both
  the database is asked once: the state returned is the state after that one call.
\<close>

theorem C6_storage_error:
  "(queryContext db (fst (patientSearchQuery lower sp)) (snd (patientSearchQuery lower sp)) =
      (Inl err, db') \<longrightarrow>
      PatientRepository_Search lower queryContext db sp = (Inl err, db')) \<and>
   (Find d (observationFilter osp) (observationFindOptions osp) = (Inl err, d') \<longrightarrow>
      ObservationRepository_Search Find d osp =
        (Inl (Errorf ''failed to search observations: '' err), d') \<and>
      Unwrap (Errorf ''failed to search observations: '' err) = Some err \<and>
      Error_msg (Errorf ''failed to search observations: '' err) =
        ''failed to search observations: '' @ Error_msg err)"
  by (simp add: PatientRepository_Search_def ObservationRepository_Search_def Let_def split_def
      Errorf_unwrap)

theorem C6_storage_error_witness:
  "PatientRepository_Search id (downQueryContext (Err ''connection refused'')) ()
     \<lparr>ps_Name = '''', ps_FamilyName = '''', ps_GivenName = '''', ps_Gender = '''',
      ps_BirthDate = None, ps_BirthDateGreaterThan = None, ps_BirthDateLessThan = None,
      ps_Active = None, ps_SortBy = '''', ps_SortOrder = '''',
      ps_Limit = 10, ps_Offset = 0\<rparr> = (Inl (Err ''connection refused''), ()) \<and>
   ObservationRepository_Search (downFind (Err ''connection refused'')) ()
     \<lparr>os_PatientID = '''', os_Code = '''', os_Category = '''', os_Status = '''',
      os_DateGreaterThan = None, os_DateLessThan = None,
      os_SortBy = '''', os_SortOrder = '''', os_Limit = 10, os_Offset = 0\<rparr> =
     (Inl (Errorf ''failed to search observations: '' (Err ''connection refused'')), ())"
  using C6_storage_error [of "downQueryContext (Err ''connection refused'')" "()" id
     "\<lparr>ps_Name = '''', ps_FamilyName = '''', ps_GivenName = '''', ps_Gender = '''',
      ps_BirthDate = None, ps_BirthDateGreaterThan = None, ps_BirthDateLessThan = None,
      ps_Active = None, ps_SortBy = '''', ps_SortOrder = '''',
      ps_Limit = 10, ps_Offset = 0\<rparr>" "Err ''connection refused''" "()"
     "downFind (Err ''connection refused'')" "()"
     "\<lparr>os_PatientID = '''', os_Code = '''', os_Category = '''', os_Status = '''',
      os_DateGreaterThan = None, os_DateLessThan = None,
      os_SortBy = '''', os_SortOrder = '''', os_Limit = 10, os_Offset = 0\<rparr>" "()"]
  by (simp add: downQueryContext_def downFind_def)

theorem C6_observation_wraps_counterexample:
  "fst (ObservationRepository_Search (downFind (Err ''connection refused'')) ()
     \<lparr>os_PatientID = '''', os_Code = '''', os_Category = '''', os_Status = '''',
      os_DateGreaterThan = None, os_DateLessThan = None,
      os_SortBy = '''', os_SortOrder = '''', os_Limit = 10, os_Offset = 0\<rparr>) =
     Inl (WrapError ''failed to search observations: connection refused''
            (Err ''connection refused'')) \<and>
   fst (ObservationRepository_Search (downFind (Err ''connection refused'')) ()
     \<lparr>os_PatientID = '''', os_Code = '''', os_Category = '''', os_Status = '''',
      os_DateGreaterThan = None, os_DateLessThan = None,
      os_SortBy = '''', os_SortOrder = '''', os_Limit = 10, os_Offset = 0\<rparr>) \<noteq>
     Inl (Err ''connection refused'')"
  by (simp add: ObservationRepository_Search_def downFind_def Errorf_def Let_def)

section \<open>Properties of the mappers and of the patient service\<close>

text \<open>
  C7 (observation status). \<open>FromFHIR\<close> gives the four statuses \<open>registered\<close>,
  \<open>preliminary\<close>, \<open>final\<close> and \<open>amended\<close> their own names and every other status of
  the wire type the name \<open>final\<close>.
\<close>

theorem C7_observation_status:
  "o_Status (ObservationMapper_FromFHIR lib fo) =
     (if fobs_Status fo = ObservationStatusRegistered then ''registered''
      else if fobs_Status fo = ObservationStatusPreliminary then ''preliminary''
      else if fobs_Status fo = ObservationStatusFinal then ''final''
      else if fobs_Status fo = ObservationStatusAmended then ''amended''
      else ''final'') \<and>
   (fobs_Status fo \<notin> {ObservationStatusRegistered, ObservationStatusPreliminary,
        ObservationStatusFinal, ObservationStatusAmended} \<longrightarrow>
      o_Status (ObservationMapper_FromFHIR lib fo) = ''final'')"
  by (cases "fobs_Status fo")
     (simp_all add: ObservationMapper_FromFHIR_def split: prod.splits)

theorem C7_observation_status_witness:
  "o_Status (ObservationMapper_FromFHIR stubLib
     \<lparr>fobs_Id = None, fobs_Status = ObservationStatusCancelled, fobs_Category = [],
      fobs_Code = \<lparr>cc_Coding = []\<rparr>, fobs_Subject = None, fobs_EffectiveDateTime = None,
      fobs_Issued = None, fobs_ValueQuantity = None, fobs_ValueString = None,
      fobs_Component = []\<rparr>) = ''final'' \<and>
   o_Status (ObservationMapper_FromFHIR stubLib
     \<lparr>fobs_Id = None, fobs_Status = ObservationStatusPreliminary, fobs_Category = [],
      fobs_Code = \<lparr>cc_Coding = []\<rparr>, fobs_Subject = None, fobs_EffectiveDateTime = None,
      fobs_Issued = None, fobs_ValueQuantity = None, fobs_ValueString = None,
      fobs_Component = []\<rparr>) = ''preliminary''"
  using C7_observation_status [of stubLib
     "\<lparr>fobs_Id = None, fobs_Status = ObservationStatusCancelled, fobs_Category = [],
      fobs_Code = \<lparr>cc_Coding = []\<rparr>, fobs_Subject = None, fobs_EffectiveDateTime = None,
      fobs_Issued = None, fobs_ValueQuantity = None, fobs_ValueString = None,
      fobs_Component = []\<rparr>"]
    C7_observation_status [of stubLib
     "\<lparr>fobs_Id = None, fobs_Status = ObservationStatusPreliminary, fobs_Category = [],
      fobs_Code = \<lparr>cc_Coding = []\<rparr>, fobs_Subject = None, fobs_EffectiveDateTime = None,
      fobs_Issued = None, fobs_ValueQuantity = None, fobs_ValueString = None,
      fobs_Component = []\<rparr>"]
  by simp

lemma CreatePatient_passes:
  "PatientService_CreatePatient r d fp =
      apfst (map_sum id PatientMapper_ToFHIR)
        (repo_Create r d
           (if fp_Active fp = None then (PatientMapper_FromFHIR fp)\<lparr>p_Active := True\<rparr>
            else PatientMapper_FromFHIR fp))"
  by (simp add: PatientService_CreatePatient_def Let_def split: prod.splits sum.splits)

lemma UpdatePatient_passes:
  "PatientService_UpdatePatient r d patientID fp =
      apfst (map_sum id PatientMapper_ToFHIR)
        (repo_Update r d ((PatientMapper_FromFHIR fp)\<lparr>p_ID := patientID\<rparr>))"
  by (simp add: PatientService_UpdatePatient_def Let_def split: prod.splits sum.splits)

text \<open>
  C8 (active by default on creation). When the wire patient has no \<open>active\<close> field,
  \<open>CreatePatient\<close> gives the repository the mapped record with \<open>Active\<close> set to true;
  when the field is false, it gives the mapped record, whose \<open>Active\<close> is false. This
  holds for every repository; with the recording repository the list of the \<open>Active\<close>
  flags it was given is \<open>[True]\<close> and \<open>[False]\<close>. The mapper alone maps the absent
  field to false: the default is the service's.
\<close>

theorem C8_create_default_active:
  "(fp_Active fp = None \<longrightarrow>
      PatientService_CreatePatient repo db fp =
        apfst (map_sum id PatientMapper_ToFHIR)
          (repo_Create repo db ((PatientMapper_FromFHIR fp)\<lparr>p_Active := True\<rparr>)) \<and>
      map p_Active (snd (PatientService_CreatePatient recordingRepository [] fp)) = [True] \<and>
      p_Active (PatientMapper_FromFHIR fp) = False) \<and>
   (fp_Active fp = Some False \<longrightarrow>
      PatientService_CreatePatient repo db fp =
        apfst (map_sum id PatientMapper_ToFHIR)
          (repo_Create repo db (PatientMapper_FromFHIR fp)) \<and>
      map p_Active (snd (PatientService_CreatePatient recordingRepository [] fp)) = [False] \<and>
      p_Active (PatientMapper_FromFHIR fp) = False)"
proof -
  have m: "p_Active (PatientMapper_FromFHIR fp) = (fp_Active fp = Some True)"
    by (cases "fp_Active fp") (simp_all add: PatientMapper_FromFHIR_def)
  have a: "fp_Active fp = None \<Longrightarrow>
      map p_Active (snd (PatientService_CreatePatient recordingRepository [] fp)) = [True]"
    by (simp add: CreatePatient_passes recordingRepository_def)
  have b: "fp_Active fp = Some False \<Longrightarrow>
      map p_Active (snd (PatientService_CreatePatient recordingRepository [] fp)) = [False]"
    by (simp add: CreatePatient_passes UpdatePatient_passes recordingRepository_def m)
  from m CreatePatient_passes [of repo db fp] a b show ?thesis by simp
qed

theorem C8_create_default_active_witness:
  "map p_Active (snd (PatientService_CreatePatient recordingRepository []
     \<lparr>fp_Id = None, fp_Active = None,
      fp_Name = [\<lparr>hn_Family = Some ''Smith'', hn_Given = [''John'']\<rparr>],
      fp_Gender = None, fp_BirthDate = None, fp_Identifier = []\<rparr>)) = [True] \<and>
   map p_Active (snd (PatientService_CreatePatient recordingRepository []
     \<lparr>fp_Id = None, fp_Active = Some False,
      fp_Name = [\<lparr>hn_Family = Some ''Smith'', hn_Given = [''John'']\<rparr>],
      fp_Gender = None, fp_BirthDate = None, fp_Identifier = []\<rparr>)) = [False]"
proof -
  let ?a = "\<lparr>fp_Id = None, fp_Active = None,
      fp_Name = [\<lparr>hn_Family = Some ''Smith'', hn_Given = [''John'']\<rparr>],
      fp_Gender = None, fp_BirthDate = None, fp_Identifier = []\<rparr>"
  let ?b = "\<lparr>fp_Id = None, fp_Active = Some False,
      fp_Name = [\<lparr>hn_Family = Some ''Smith'', hn_Given = [''John'']\<rparr>],
      fp_Gender = None, fp_BirthDate = None, fp_Identifier = []\<rparr>"
  have "fp_Active ?a = None" by simp
  with C8_create_default_active [of ?a recordingRepository "[]"]
  have a: "map p_Active (snd (PatientService_CreatePatient recordingRepository [] ?a)) = [True]"
    by blast
  have "fp_Active ?b = Some False" by simp
  with C8_create_default_active [of ?b recordingRepository "[]"]
  have b: "map p_Active (snd (PatientService_CreatePatient recordingRepository [] ?b)) = [False]"
    by blast
  from a b show ?thesis by blast
qed

text \<open>
  C9 (patient round trip). The wire form carries the birth date as a day, so the
  property fails as the specification states it (see \<open>C9_birth_date_counterexample\<close>).
  What holds: for a patient with a gender among the four values, both parts of the
  identifier non-empty and a birth date in the years 0 to 9999, \<open>ToFHIR\<close> followed by
  \<open>FromFHIR\<close> returns the same identifier, active flag, names, gender and identifier
  pair, and the birth date as the same day at midnight UTC; the two audit timestamps are
  zero. A birth date that is such a day already comes back unchanged.
\<close>

theorem C9_patient_round_trip:
  assumes "p_BirthDate p = Some b" and "validDate b" and "0 \<le> t_year b" and "t_year b \<le> 9999"
    and "p_Gender p \<in> {''male'', ''female'', ''other'', ''unknown''}"
    and "p_IdentifierSystem p \<noteq> ''''" and "p_IdentifierValue p \<noteq> ''''"
  shows "PatientMapper_FromFHIR (PatientMapper_ToFHIR p) =
           p\<lparr>p_BirthDate := Some (dateOnly b), p_CreatedAt := zeroTime, p_UpdatedAt := zeroTime\<rparr> \<and>
         (b = dateOnly b \<longrightarrow>
            p_BirthDate (PatientMapper_FromFHIR (PatientMapper_ToFHIR p)) = p_BirthDate p)"
proof -
  have d: "time_Parse ''2006-01-02'' (time_Format b ''2006-01-02'') = Some (dateOnly b)"
    using parse_format_date [OF assms(2) assms(3) assms(4)] by (simp add: dateOnly_def)
  have g: "mapGenderFromFHIR (mapGenderToFHIR (p_Gender p)) = p_Gender p"
    using assms(5) by auto
  have n: "p_Gender p \<noteq> ''''" using assms(5) by auto
  have e: "PatientMapper_FromFHIR (PatientMapper_ToFHIR p) =
      p\<lparr>p_BirthDate := Some (dateOnly b), p_CreatedAt := zeroTime, p_UpdatedAt := zeroTime\<rparr>"
    using assms(1) assms(6) assms(7) n
    by (simp add: PatientMapper_FromFHIR_def PatientMapper_ToFHIR_def Let_def d g
        del: mapGenderToFHIR.simps)
  then show ?thesis using assms(1) by simp
qed

theorem C9_patient_round_trip_witness:
  "PatientMapper_FromFHIR (PatientMapper_ToFHIR
     \<lparr>p_ID = ''test-uuid-123'', p_IdentifierSystem = ''http://hospital.example.org/patients'',
      p_IdentifierValue = ''MRN-001'', p_Active = True, p_FamilyName = ''Smith'',
      p_GivenName = ''John'', p_Gender = ''male'',
      p_BirthDate = Some \<lparr>t_year = 1990, t_month = 6, t_day = 15, t_hour = 0, t_minute = 0,
                            t_second = 0, t_nsec = 0, t_offset = 0\<rparr>,
      p_CreatedAt = zeroTime, p_UpdatedAt = zeroTime\<rparr>) =
     \<lparr>p_ID = ''test-uuid-123'', p_IdentifierSystem = ''http://hospital.example.org/patients'',
      p_IdentifierValue = ''MRN-001'', p_Active = True, p_FamilyName = ''Smith'',
      p_GivenName = ''John'', p_Gender = ''male'',
      p_BirthDate = Some \<lparr>t_year = 1990, t_month = 6, t_day = 15, t_hour = 0, t_minute = 0,
                            t_second = 0, t_nsec = 0, t_offset = 0\<rparr>,
      p_CreatedAt = zeroTime, p_UpdatedAt = zeroTime\<rparr>"
proof -
  let ?b = "\<lparr>t_year = 1990, t_month = 6, t_day = 15, t_hour = 0, t_minute = 0,
             t_second = 0, t_nsec = 0, t_offset = 0\<rparr>"
  let ?p = "\<lparr>p_ID = ''test-uuid-123'',
      p_IdentifierSystem = ''http://hospital.example.org/patients'',
      p_IdentifierValue = ''MRN-001'', p_Active = True, p_FamilyName = ''Smith'',
      p_GivenName = ''John'', p_Gender = ''male'', p_BirthDate = Some ?b,
      p_CreatedAt = zeroTime, p_UpdatedAt = zeroTime\<rparr>"
  have h: "p_BirthDate ?p = Some ?b" "validDate ?b" "0 \<le> t_year ?b" "t_year ?b \<le> 9999"
    "p_Gender ?p \<in> {''male'', ''female'', ''other'', ''unknown''}"
    "p_IdentifierSystem ?p \<noteq> ''''" "p_IdentifierValue ?p \<noteq> ''''"
    by (simp_all add: validDate_def daysIn_def)
  have d: "dateOnly ?b = ?b" by (simp add: dateOnly_def)
  from C9_patient_round_trip [OF h, THEN conjunct1] show ?thesis by (simp add: d)
qed

theorem C9_birth_date_counterexample:
  "p_BirthDate (PatientMapper_FromFHIR (PatientMapper_ToFHIR
     \<lparr>p_ID = ''test-uuid-123'', p_IdentifierSystem = ''http://hospital.example.org/patients'',
      p_IdentifierValue = ''MRN-001'', p_Active = True, p_FamilyName = ''Smith'',
      p_GivenName = ''John'', p_Gender = ''male'',
      p_BirthDate = Some \<lparr>t_year = 1990, t_month = 6, t_day = 15, t_hour = 10,
                            t_minute = 30, t_second = 0, t_nsec = 0, t_offset = 0\<rparr>,
      p_CreatedAt = zeroTime, p_UpdatedAt = zeroTime\<rparr>)) =
     Some \<lparr>t_year = 1990, t_month = 6, t_day = 15, t_hour = 0, t_minute = 0,
           t_second = 0, t_nsec = 0, t_offset = 0\<rparr> \<and>
   p_BirthDate (PatientMapper_FromFHIR (PatientMapper_ToFHIR
     \<lparr>p_ID = ''test-uuid-123'', p_IdentifierSystem = ''http://hospital.example.org/patients'',
      p_IdentifierValue = ''MRN-001'', p_Active = True, p_FamilyName = ''Smith'',
      p_GivenName = ''John'', p_Gender = ''male'',
      p_BirthDate = Some \<lparr>t_year = 10000, t_month = 6, t_day = 15, t_hour = 0,
                            t_minute = 0, t_second = 0, t_nsec = 0, t_offset = 0\<rparr>,
      p_CreatedAt = zeroTime, p_UpdatedAt = zeroTime\<rparr>)) = None"
proof -
  have f1: "time_Format \<lparr>t_year = 1990, t_month = 6, t_day = 15, t_hour = 10,
      t_minute = 30, t_second = 0, t_nsec = 0, t_offset = 0\<rparr> ''2006-01-02'' = ''1990-06-15''"
    by (simp add: time_Format_def appendInt_def decDigits.simps digitChar_numerals)
  have f2: "time_Format \<lparr>t_year = 10000, t_month = 6, t_day = 15, t_hour = 0,
      t_minute = 0, t_second = 0, t_nsec = 0, t_offset = 0\<rparr> ''2006-01-02'' = ''10000-06-15''"
    by (simp add: time_Format_def appendInt_def decDigits.simps digitChar_numerals)
  have p1: "time_Parse ''2006-01-02'' ''1990-06-15'' =
      Some \<lparr>t_year = 1990, t_month = 6, t_day = 15, t_hour = 0, t_minute = 0,
            t_second = 0, t_nsec = 0, t_offset = 0\<rparr>"
    by (simp add: parse_eval)
  have p2: "time_Parse ''2006-01-02'' ''10000-06-15'' = None"
    by (simp add: parse_eval)
  show ?thesis
    by (simp add: PatientMapper_FromFHIR_def PatientMapper_ToFHIR_def Let_def f1 f2 p1 p2)
qed

text \<open>
  C10 (no default on update). When the wire patient has no \<open>active\<close> field,
  \<open>UpdatePatient\<close> gives the repository the mapped record with the identifier of the
  call, and its \<open>Active\<close> is false.
\<close>

theorem C10_update_keeps_mapper_default:
  "fp_Active fp = None \<longrightarrow>
      PatientService_UpdatePatient repo db patientID fp =
        apfst (map_sum id PatientMapper_ToFHIR)
          (repo_Update repo db ((PatientMapper_FromFHIR fp)\<lparr>p_ID := patientID\<rparr>)) \<and>
      p_Active ((PatientMapper_FromFHIR fp)\<lparr>p_ID := patientID\<rparr>) = False \<and>
      map p_Active (snd (PatientService_UpdatePatient recordingRepository [] patientID fp)) =
        [False]"
proof -
  have m: "fp_Active fp = None \<Longrightarrow> p_Active (PatientMapper_FromFHIR fp) = False"
    by (simp add: PatientMapper_FromFHIR_def)
  have a: "fp_Active fp = None \<Longrightarrow>
      map p_Active (snd (PatientService_UpdatePatient recordingRepository [] patientID fp)) =
        [False]"
    by (simp add: CreatePatient_passes UpdatePatient_passes recordingRepository_def m)
  from m UpdatePatient_passes [of repo db patientID fp] a show ?thesis by simp
qed

theorem C10_update_keeps_mapper_default_witness:
  "map p_Active (snd (PatientService_UpdatePatient recordingRepository [] ''id-1''
     \<lparr>fp_Id = None, fp_Active = None,
      fp_Name = [\<lparr>hn_Family = Some ''Smith'', hn_Given = [''John'']\<rparr>],
      fp_Gender = None, fp_BirthDate = None, fp_Identifier = []\<rparr>)) = [False]"
proof -
  let ?a = "\<lparr>fp_Id = None, fp_Active = None,
      fp_Name = [\<lparr>hn_Family = Some ''Smith'', hn_Given = [''John'']\<rparr>],
      fp_Gender = None, fp_BirthDate = None, fp_Identifier = []\<rparr>"
  have "fp_Active ?a = None" by simp
  with C10_update_keeps_mapper_default [of ?a recordingRepository "[]" "''id-1''"]
  show ?thesis by blast
qed

end
